theory Spec2Isabelle
  imports Complex_Main
begin

section \<open>Python values, exceptions and strings\<close>

text \<open>
  The program is one Python module, \<^verbatim>\<open>main.py\<close>: a pipeline of six stages that
  call a text-completion service, an image service, a blob store and a git-hosting API.
  The embedding keeps the module's functions and their names. Every external call is
  answered by an oracle of the \<open>world\<close> record and recorded in a trace; every
  \<^verbatim>\<open>raise\<close> is a value \<open>Inl e\<close>.

  A Python \<^verbatim>\<open>str\<close> is a \<open>string\<close>: one \<open>char\<close> per code point, so the
  model covers the code points below 256. The character tables below (whitespace, digits,
  lower case) are those of CPython 3 on that range.
\<close>

datatype pyval =
    PNone
  | PBool bool
  | PInt int
  | PFloat rat
  | PStr string
  | PList "pyval list"
  | PDict "(pyval \<times> pyval) list"
  | PObj string string bool
    \<comment> \<open>an object of any other class (a date, bytes, a set): class name, \<^verbatim>\<open>str()\<close> text, truth value\<close>

datatype exn =
    ValueError string
  | RuntimeError string
  | FileNotFoundError string
  | AttributeError string
  | KeyError string
  | TypeError string
  | OtherError string
    \<comment> \<open>an exception of any other subclass of \<^verbatim>\<open>Exception\<close>, raised inside a library call\<close>
  | HTTPException nat string

text \<open>\<^verbatim>\<open>str(n)\<close> for an integer: its decimal digits.\<close>

definition digit_char :: "nat \<Rightarrow> char" where
  "digit_char d = ''0123456789'' ! d"

fun string_of_nat :: "nat \<Rightarrow> string" where
  "string_of_nat n =
     (let last_digit = [digit_char (n mod 10)]
      in if 10 \<le> n then string_of_nat (n div 10) @ last_digit else last_digit)"

declare string_of_nat.simps [simp del]

definition string_of_int :: "int \<Rightarrow> string" where
  "string_of_int i = (if i < 0 then CHR ''-'' # string_of_nat (nat (- i)) else string_of_nat (nat i))"

text \<open>\<^verbatim>\<open>str(e)\<close>: the message of the exception.\<close>

fun exn_str :: "exn \<Rightarrow> string" where
  "exn_str (ValueError m) = m"
| "exn_str (RuntimeError m) = m"
| "exn_str (FileNotFoundError m) = m"
| "exn_str (AttributeError m) = m"
| "exn_str (KeyError m) = m"
| "exn_str (TypeError m) = m"
| "exn_str (OtherError m) = m"
| "exn_str (HTTPException code detail) = string_of_nat code @ '': '' @ detail"

fun type_name :: "pyval \<Rightarrow> string" where
  "type_name PNone = ''NoneType''"
| "type_name (PBool b) = ''bool''"
| "type_name (PInt i) = ''int''"
| "type_name (PFloat q) = ''float''"
| "type_name (PStr s) = ''str''"
| "type_name (PList xs) = ''list''"
| "type_name (PDict d) = ''dict''"
| "type_name (PObj cls txt truth) = cls"

definition quoted :: "string \<Rightarrow> string" where
  "quoted s = [CHR 0x27] @ s @ [CHR 0x27]"

text \<open>Looking up an attribute that the object's class does not have.\<close>

definition no_attribute :: "pyval \<Rightarrow> string \<Rightarrow> exn" where
  "no_attribute v a =
     AttributeError (quoted (type_name v) @ '' object has no attribute '' @ quoted a)"

text \<open>Truth value of an object, as \<^verbatim>\<open>or\<close> and \<^verbatim>\<open>not\<close> test it.\<close>

fun truthy :: "pyval \<Rightarrow> bool" where
  "truthy PNone = False"
| "truthy (PBool b) = b"
| "truthy (PInt i) = (i \<noteq> 0)"
| "truthy (PFloat q) = (q \<noteq> 0)"
| "truthy (PStr s) = (s \<noteq> [])"
| "truthy (PList xs) = (xs \<noteq> [])"
| "truthy (PDict d) = (d \<noteq> [])"
| "truthy (PObj cls txt truth) = truth"

subsection \<open>String methods\<close>

text \<open>\<^verbatim>\<open>str.isspace\<close> on one character: U+0009..U+000D, U+001C..U+0020, U+0085, U+00A0.\<close>

definition isspace_char :: "char \<Rightarrow> bool" where
  "isspace_char c \<longleftrightarrow>
     c \<in> set [CHR 0x09, CHR 0x0A, CHR 0x0B, CHR 0x0C, CHR 0x0D,
              CHR 0x1C, CHR 0x1D, CHR 0x1E, CHR 0x1F, CHR 0x20, CHR 0x85, CHR 0xA0]"

text \<open>\<^verbatim>\<open>s.strip()\<close>: leading and trailing whitespace removed.\<close>

definition strip :: "string \<Rightarrow> string" where
  "strip s = rev (dropWhile isspace_char (rev (dropWhile isspace_char s)))"

text \<open>
  \<^verbatim>\<open>str.isdigit\<close> on one character: the decimal digits and the superscript digits
  U+00B2, U+00B3, U+00B9.
\<close>

definition isdigit_char :: "char \<Rightarrow> bool" where
  "isdigit_char c \<longleftrightarrow>
     c \<in> set ''0123456789'' \<or> c \<in> set [CHR 0xB2, CHR 0xB3, CHR 0xB9]"

text \<open>\<^verbatim>\<open>s.isdigit()\<close>: at least one character, and all of them digits.\<close>

definition isdigit :: "string \<Rightarrow> bool" where
  "isdigit s \<longleftrightarrow> s \<noteq> [] \<and> list_all isdigit_char s"

text \<open>\<^verbatim>\<open>s.lower()\<close>: A..Z and U+00C0..U+00DE (without U+00D7) move up by 32.\<close>

definition lower_char :: "char \<Rightarrow> char" where
  "lower_char c =
     (let n = (of_char c :: nat)
      in if (65 \<le> n \<and> n \<le> 90) \<or> (192 \<le> n \<and> n \<le> 222 \<and> n \<noteq> 215)
         then char_of (n + 32) else c)"

definition lower :: "string \<Rightarrow> string" where
  "lower s = map lower_char s"

text \<open>\<^verbatim>\<open>s.replace(a, b)\<close> for one-character \<open>a\<close> and \<open>b\<close>.\<close>

definition replace_char :: "char \<Rightarrow> char \<Rightarrow> string \<Rightarrow> string" where
  "replace_char a b s = map (\<lambda>c. if c = a then b else c) s"

text \<open>\<^verbatim>\<open>s.startswith(p)\<close>.\<close>

definition startswith :: "string \<Rightarrow> string \<Rightarrow> bool" where
  "startswith s p \<longleftrightarrow> take (length p) s = p"

text \<open>
  \<^verbatim>\<open>s.index(sub, start)\<close> for a non-negative \<open>start\<close>: the lowest index
  \<open>i \<ge> start\<close> with \<open>s[i:i+len(sub)] == sub\<close>; \<open>None\<close> where Python raises
  \<^verbatim>\<open>ValueError('substring not found')\<close>. \<open>find_at\<close> scans \<open>s\<close> from its
  head, \<open>i\<close> being the index of that head in the whole string.
\<close>

fun find_at :: "string \<Rightarrow> string \<Rightarrow> nat \<Rightarrow> nat option" where
  "find_at sub [] i = (if sub = [] then Some i else None)"
| "find_at sub (c # cs) i =
     (if take (length sub) (c # cs) = sub then Some i else find_at sub cs (Suc i))"

definition str_index :: "string \<Rightarrow> string \<Rightarrow> nat \<Rightarrow> nat option" where
  "str_index s sub start =
     (if start \<le> length s then find_at sub (drop start s) start else None)"

text \<open>The slice \<^verbatim>\<open>s[a:b]\<close> for non-negative \<open>a\<close> and \<open>b\<close>.\<close>

definition slice :: "string \<Rightarrow> nat \<Rightarrow> nat \<Rightarrow> string" where
  "slice s a b = take (b - a) (drop a s)"

section \<open>The outside world\<close>

text \<open>
  A record of what \<^verbatim>\<open>requests.get\<close> returned: the bytes of the body, and the
  exception that \<^verbatim>\<open>raise_for_status()\<close> raises on it, if any.
\<close>

record http_reply =
  status_error :: "exn option"
  body :: string

text \<open>
  The handle that \<^verbatim>\<open>repo.get_contents\<close> returns for the path of a file: the
  outcome of \<^verbatim>\<open>decoded_content.decode()\<close> and the revision marker \<^verbatim>\<open>sha\<close>.
\<close>

record contents_file =
  decoded :: "exn + string"
  sha :: string

text \<open>
  The oracles. Each answers one kind of external call as a function of the call's
  arguments; \<open>Inl e\<close> (or \<open>Some e\<close>) means that the call raised \<open>e\<close>. The
  libraries \<^verbatim>\<open>yaml\<close> and \<^verbatim>\<open>json\<close> and the rendering of floats and containers
  by \<^verbatim>\<open>str()\<close> are parameters too. \<open>clock k\<close> is what \<^verbatim>\<open>time.time()\<close> reads
  once \<open>k\<close> external calls have been made; the readings that only feed log lines are
  left out, as is logging itself. \<open>open_write_error\<close> and \<open>open_read_error\<close> are
  what opening \<^verbatim>\<open>/tmp/report.md\<close> for writing and for reading raises, if anything.
\<close>

record world =
  random_choice :: nat
  chat_completion :: "string \<Rightarrow> nat \<Rightarrow> exn + string option"
  images_generate :: "string \<Rightarrow> exn + string option"
  requests_get :: "string option \<Rightarrow> exn + http_reply"
  blob_put :: "string \<Rightarrow> string \<Rightarrow> exn + (string \<times> string) list"
  clock :: "nat \<Rightarrow> rat"
  now_iso :: string
  now_year :: nat
  git_token :: "string option"
  get_repo :: "string \<Rightarrow> exn option"
  create_file :: "string \<Rightarrow> string \<Rightarrow> string \<Rightarrow> exn option"
  get_contents :: "string \<Rightarrow> exn + contents_file"
  update_file :: "string \<Rightarrow> string \<Rightarrow> string \<Rightarrow> string \<Rightarrow> exn option"
  yaml_safe_load :: "string \<Rightarrow> exn + pyval"
  json_loads :: "string \<Rightarrow> exn + pyval"
  json_dumps :: "pyval \<Rightarrow> exn + string"
  py_repr :: "pyval \<Rightarrow> string"
  open_write_error :: "exn option"
  open_read_error :: "exn option"

text \<open>The external calls, in the order in which they are issued.\<close>

datatype event =
    ChatCall string nat
  | ImageCall string
  | HttpGet "string option"
  | BlobPut string string
  | GetRepo string
  | CreateFile string string string
  | GetContents string
  | UpdateFile string string string string

text \<open>The mutable state: the text stored in \<^verbatim>\<open>/tmp/report.md\<close>, and the trace.\<close>

record state =
  report_file :: "string option"
  trace :: "event list"

definition emit :: "event \<Rightarrow> state \<Rightarrow> state" where
  "emit ev s = s\<lparr>trace := trace s @ [ev]\<rparr>"

definition time_time :: "world \<Rightarrow> state \<Rightarrow> rat" where
  "time_time w s = clock w (length (trace s))"

text \<open>\<^verbatim>\<open>str(v)\<close>, as an f-string renders \<open>v\<close>.\<close>

definition py_str :: "world \<Rightarrow> pyval \<Rightarrow> string" where
  "py_str w v =
     (case v of
        PNone \<Rightarrow> ''None''
      | PBool b \<Rightarrow> (if b then ''True'' else ''False'')
      | PInt i \<Rightarrow> string_of_int i
      | PStr s \<Rightarrow> s
      | PObj cls txt truth \<Rightarrow> txt
      | _ \<Rightarrow> py_repr w v)"

section \<open>The text-generation stages\<close>

definition prompt_line :: "string \<Rightarrow> string" where
  "prompt_line s = ''    '' @ s @ [CHR 0x0A]"

text \<open>
  \<^verbatim>\<open>client.chat.completions.create(model="gpt-4o-mini", messages=[...],
  max_tokens=..., temperature=0.7)\<close> followed by \<^verbatim>\<open>response.choices[0].message.content\<close>:
  \<open>Inr None\<close> is a reply whose content is \<^verbatim>\<open>None\<close>.
\<close>

definition chat_create :: "world \<Rightarrow> string \<Rightarrow> nat \<Rightarrow> state \<Rightarrow> (exn + string option) \<times> state" where
  "chat_create w prompt max_tokens s =
     (chat_completion w prompt max_tokens, emit (ChatCall prompt max_tokens) s)"

text \<open>
  The body of each stage's \<^verbatim>\<open>try\<close> after the call:
  \<^verbatim>\<open>content = ....content.strip(); if not content: raise ValueError(msg)\<close>.
\<close>

definition stripped_content :: "exn + string option \<Rightarrow> string \<Rightarrow> exn + string" where
  "stripped_content r msg =
     (case r of
        Inl e \<Rightarrow> Inl e
      | Inr None \<Rightarrow> Inl (no_attribute PNone ''strip'')
      | Inr (Some txt) \<Rightarrow>
          (let content = strip txt
           in if content = [] then Inl (ValueError msg) else Inr content))"

text \<open>\<^verbatim>\<open>except Exception as e: raise RuntimeError(f"{prefix}{str(e)}")\<close>.\<close>

definition rewrap :: "string \<Rightarrow> exn + 'a \<Rightarrow> exn + 'a" where
  "rewrap prefix r = (case r of Inl e \<Rightarrow> Inl (RuntimeError (prefix @ exn_str e)) | Inr x \<Rightarrow> Inr x)"

definition research_prompt :: "string \<Rightarrow> string \<Rightarrow> string" where
  "research_prompt topic current_year =
     [CHR 0x0A]
     @ prompt_line (''Summarize key developments in '' @ topic @ '' for '' @ current_year
                    @ '' in 8 short bullet points:'')
     @ prompt_line ''- Recent innovations (1 sentence).''
     @ prompt_line ''- Current trends (1 sentence).''
     @ prompt_line ''- Key statistics (1 sentence).''
     @ prompt_line ''- Future predictions (1 sentence).''
     @ prompt_line ''- Practical applications (1 sentence).''
     @ prompt_line ''- Notable challenge (1 sentence).''
     @ prompt_line ''- Industry impact (1 sentence).''
     @ prompt_line ''- Emerging opportunity (1 sentence).''
     @ prompt_line ''Keep it concise, max 30 words per bullet.''
     @ ''    ''"

definition research_topic :: "world \<Rightarrow> string \<Rightarrow> string \<Rightarrow> state \<Rightarrow> (exn + string) \<times> state" where
  "research_topic w topic current_year s =
     (if topic = [] \<or> strip topic = [] then (Inl (ValueError ''Topic cannot be empty''), s)
      else if \<not> isdigit current_year then (Inl (ValueError ''Current year must be a number''), s)
      else
        (case chat_create w (research_prompt topic current_year) 300 s of
           (r, s') \<Rightarrow> (rewrap ''Research failed: '' (stripped_content r ''Empty OpenAI response''), s')))"

definition image_prompt_prompt :: "string \<Rightarrow> string \<Rightarrow> string \<Rightarrow> string" where
  "image_prompt_prompt topic title research_output =
     [CHR 0x0A]
     @ prompt_line (''Create a prompt for an image based on the blog post titled '' @ quoted title
                    @ '' in the category '' @ quoted topic @ ''.'')
     @ prompt_line (''Use this research: '' @ research_output)
     @ prompt_line ''The image should be visually striking, modern, and relevant (e.g., futuristic AI for AI category, blockchain nodes for Web3).''
     @ prompt_line ''Keep the prompt concise, max 20 words.''
     @ ''    ''"

definition generate_image_prompt :: "world \<Rightarrow> string \<Rightarrow> string \<Rightarrow> string \<Rightarrow> state \<Rightarrow> (exn + string) \<times> state" where
  "generate_image_prompt w topic title research_output s =
     (case chat_create w (image_prompt_prompt topic title research_output) 50 s of
        (r, s') \<Rightarrow>
          (rewrap ''Image prompt generation failed: ''
             (stripped_content r ''Empty image prompt response''), s'))"

definition blog_prompt :: "string \<Rightarrow> string \<Rightarrow> string \<Rightarrow> string \<Rightarrow> string \<Rightarrow> string \<Rightarrow> string" where
  "blog_prompt topic research_output author_name author_picture_url cover_image_url current_date_iso =
     [CHR 0x0A]
     @ prompt_line (''Write a short blog post about '' @ topic @ '' in Markdown, using this research:'')
     @ prompt_line research_output
     @ prompt_line ''Start with this frontmatter (single quotes):''
     @ prompt_line []
     @ prompt_line ''---''
     @ prompt_line (''title: '' @ quoted ''(Catchy title)'')
     @ prompt_line (''status: '' @ quoted ''published'')
     @ prompt_line ''author:''
     @ prompt_line (''  name: '' @ quoted author_name)
     @ prompt_line (''  picture: '' @ quoted author_picture_url)
     @ prompt_line (''slug: '' @ quoted ''(URL-friendly title)'')
     @ prompt_line (''description: '' @ quoted ''(One-sentence summary)'')
     @ prompt_line (''coverImage: '' @ quoted cover_image_url)
     @ prompt_line (''category: '' @ quoted topic)
     @ prompt_line (''publishedAt: '' @ quoted current_date_iso)
     @ prompt_line ''---''
     @ prompt_line []
     @ prompt_line ''Content: 2-3 paragraphs, max 200 words total, no code blocks.''
     @ ''    ''"

definition write_blog_post :: "world \<Rightarrow> string \<Rightarrow> string \<Rightarrow> string \<Rightarrow> string \<Rightarrow> string \<Rightarrow> string \<Rightarrow> state \<Rightarrow> (exn + string) \<times> state" where
  "write_blog_post w topic research_output author_name author_picture_url cover_image_url current_date_iso s =
     (case chat_create w
             (blog_prompt topic research_output author_name author_picture_url cover_image_url
                current_date_iso) 600 s of
        (r, s') \<Rightarrow> (rewrap ''Blog post failed: '' (stripped_content r ''Empty OpenAI response''), s'))"

definition categories :: "string list" where
  "categories = [''AI'', ''Web3'', ''Blockchain Fusion'', ''Startups'', ''Tech Culture'',
                 ''Tools & Reviews'', ''How-Tos'', ''Editorials'', ''AGI'']"

definition title_prompt :: "string \<Rightarrow> string" where
  "title_prompt selected_category =
     [CHR 0x0A]
     @ prompt_line (''Generate a catchy blog post title for the category '' @ quoted selected_category @ ''.'')
     @ prompt_line ''Focus on recent trends or innovations (e.g., AI breakthroughs, Web3 scalability, AGI ethics).''
     @ prompt_line ''Keep it concise, max 10 words.''
     @ ''    ''"

text \<open>
  \<^verbatim>\<open>random.choice(categories)\<close> is the element at the index the world draws, taken
  modulo the length of the list.
\<close>

definition select_category_and_title :: "world \<Rightarrow> state \<Rightarrow> (exn + string \<times> string) \<times> state" where
  "select_category_and_title w s =
     (let selected_category = categories ! (random_choice w mod length categories)
      in case chat_create w (title_prompt selected_category) 50 s of
           (r, s') \<Rightarrow>
             (case rewrap ''Title generation failed: '' (stripped_content r ''Empty title response'') of
                Inl e \<Rightarrow> (Inl e, s')
              | Inr title \<Rightarrow> (Inr (selected_category, title), s')))"

section \<open>The Image Producer\<close>

text \<open>
  The \<^verbatim>\<open>try\<close> block of \<^verbatim>\<open>generate_and_upload_image\<close>: generate, download,
  upload. \<open>Inr None\<close> from the image service is a reply whose \<^verbatim>\<open>url\<close> is
  \<^verbatim>\<open>None\<close>; it is handed to \<^verbatim>\<open>requests.get\<close> as it is.
\<close>

text \<open>\<^verbatim>\<open>int(x)\<close> for a float: truncation towards zero.\<close>

definition int_of_float :: "rat \<Rightarrow> int" where
  "int_of_float x = (if x < 0 then - \<lfloor>- x\<rfloor> else \<lfloor>x\<rfloor>)"

definition blob_filename :: "world \<Rightarrow> string \<Rightarrow> state \<Rightarrow> string" where
  "blob_filename w title s =
     ''images/'' @ replace_char CHR '' '' CHR ''-'' (lower title) @ ''-''
     @ string_of_int (int_of_float (time_time w s)) @ ''.png''"

definition image_chain :: "world \<Rightarrow> string \<Rightarrow> string \<Rightarrow> state \<Rightarrow> (exn + string) \<times> state" where
  "image_chain w image_prompt title s =
     (let s1 = emit (ImageCall image_prompt) s
      in case images_generate w image_prompt of
           Inl e \<Rightarrow> (Inl e, s1)
         | Inr image_url \<Rightarrow>
             (let s2 = emit (HttpGet image_url) s1
              in case requests_get w image_url of
                   Inl e \<Rightarrow> (Inl e, s2)
                 | Inr image_response \<Rightarrow>
                     (case status_error image_response of
                        Some e \<Rightarrow> (Inl e, s2)
                      | None \<Rightarrow>
                          (let image_data = body image_response;
                               name = blob_filename w title s2;
                               s3 = emit (BlobPut name image_data) s2
                           in case blob_put w name image_data of
                                Inl e \<Rightarrow> (Inl e, s3)
                              | Inr blob_response \<Rightarrow>
                                  (case map_of blob_response ''url'' of
                                     None \<Rightarrow> (Inl (KeyError (quoted ''url'')), s3)
                                   | Some blob_url \<Rightarrow> (Inr blob_url, s3))))))"

definition placeholder_url :: string where
  "placeholder_url = ''https://example.com/placeholder.jpg''"

definition generate_and_upload_image :: "world \<Rightarrow> string \<Rightarrow> string \<Rightarrow> state \<Rightarrow> (exn + string) \<times> state" where
  "generate_and_upload_image w image_prompt title s =
     (case image_chain w image_prompt title s of
        (Inl e, s') \<Rightarrow> (Inr placeholder_url, s')
      | (Inr blob_url, s') \<Rightarrow> (Inr blob_url, s'))"

section \<open>The Publisher\<close>

text \<open>
  Reading a file opened in text mode turns \<^verbatim>\<open>\r\n\<close> and a lone \<^verbatim>\<open>\r\<close> into
  \<^verbatim>\<open>\n\<close>.
\<close>

fun universal_newlines :: "string \<Rightarrow> string" where
  "universal_newlines [] = []"
| "universal_newlines [c] = (if c = CHR 0x0D then [CHR 0x0A] else [c])"
| "universal_newlines (c # d # cs) =
     (if c = CHR 0x0D \<and> d = CHR 0x0A then CHR 0x0A # universal_newlines cs
      else if c = CHR 0x0D then CHR 0x0A # universal_newlines (d # cs)
      else c # universal_newlines (d # cs))"

text \<open>Sequencing of two steps that may raise.\<close>

definition and_then :: "exn + 'a \<Rightarrow> ('a \<Rightarrow> exn + 'b) \<Rightarrow> exn + 'b" where
  "and_then r f = (case r of Inl e \<Rightarrow> Inl e | Inr x \<Rightarrow> f x)"

text \<open>
  \<^verbatim>\<open>v.get(key, default)\<close>: only a dict has the method. (Of the classes that
  \<^verbatim>\<open>yaml.safe_load\<close> builds, none but \<^verbatim>\<open>dict\<close> has it.)
\<close>

definition dict_get :: "pyval \<Rightarrow> string \<Rightarrow> pyval \<Rightarrow> exn + pyval" where
  "dict_get v key dflt =
     (case v of
        PDict d \<Rightarrow> Inr (case map_of d (PStr key) of Some x \<Rightarrow> x | None \<Rightarrow> dflt)
      | _ \<Rightarrow> Inl (no_attribute v ''get''))"

text \<open>Assignment to the key of a dict, keeping the position of a key that is present.\<close>

fun dict_set :: "(pyval \<times> pyval) list \<Rightarrow> pyval \<Rightarrow> pyval \<Rightarrow> (pyval \<times> pyval) list" where
  "dict_set [] k v = [(k, v)]"
| "dict_set ((k', v') # d) k v = (if k' = k then (k, v) # d else (k', v') # dict_set d k v)"

text \<open>
  Lines 184 to 188: the frontmatter mapping.
  \<^verbatim>\<open>content.index('---', 3)\<close> raises where no second delimiter follows;
  \<^verbatim>\<open>yaml.safe_load(frontmatter) or {}\<close> replaces a false value by the empty dict.
\<close>

definition parse_frontmatter :: "world \<Rightarrow> string \<Rightarrow> exn + pyval" where
  "parse_frontmatter w content =
     (if startswith content ''---'' then
        (case str_index content ''---'' 3 of
           None \<Rightarrow> Inl (ValueError ''substring not found'')
         | Some frontmatter_end \<Rightarrow>
             (let frontmatter = strip (slice content 3 frontmatter_end)
              in and_then (yaml_safe_load w frontmatter)
                   (\<lambda>v. Inr (if truthy v then v else PDict []))))
      else Inr (PDict []))"

definition blog_path :: "world \<Rightarrow> pyval \<Rightarrow> string" where
  "blog_path w slug = ''outstatic/content/blogs/'' @ py_str w slug @ ''.md''"

text \<open>Lines 209 to 226: the entry derived from the frontmatter mapping and the slug.\<close>

definition new_entry :: "world \<Rightarrow> pyval \<Rightarrow> pyval \<Rightarrow> exn + pyval" where
  "new_entry w metadata slug =
     and_then (dict_get metadata ''category'' (PStr ''Uncategorized'')) (\<lambda>category.
     and_then (dict_get metadata ''coverImage'' (PStr [])) (\<lambda>coverImage.
     and_then (dict_get metadata ''description'' (PStr [])) (\<lambda>description.
     and_then (dict_get metadata ''publishedAt'' (PStr [])) (\<lambda>publishedAt.
     and_then (dict_get metadata ''status'' (PStr ''draft'')) (\<lambda>status.
     and_then (dict_get metadata ''title'' (PStr ''Untitled'')) (\<lambda>title.
     and_then (dict_get metadata ''author'' (PDict [])) (\<lambda>author1.
     and_then (dict_get author1 ''name'' (PStr [])) (\<lambda>name.
     and_then (dict_get metadata ''author'' (PDict [])) (\<lambda>author2.
     and_then (dict_get author2 ''picture'' (PStr [])) (\<lambda>picture.
       Inr (PDict
         [(PStr ''category'', category),
          (PStr ''collection'', PStr ''blogs''),
          (PStr ''coverImage'', coverImage),
          (PStr ''description'', description),
          (PStr ''publishedAt'', publishedAt),
          (PStr ''slug'', slug),
          (PStr ''status'', status),
          (PStr ''title'', title),
          (PStr ''path'', PStr (blog_path w slug)),
          (PStr ''author'', PDict [(PStr ''name'', name), (PStr ''picture'', picture)]),
          (PStr ''__outstatic'', PDict [(PStr ''path'', PStr (blog_path w slug))])])))))))))))"

definition empty_index :: pyval where
  "empty_index = PDict [(PStr ''metadata'', PList [])]"

definition index_path :: string where
  "index_path = ''outstatic/content/metadata.json''"

text \<open>
  Subscripting an object that is not a dict with a \<^verbatim>\<open>str\<close> key (the messages of
  CPython 3.11).
\<close>

definition subscript_error :: "pyval \<Rightarrow> exn" where
  "subscript_error v =
     (case v of
        PList xs \<Rightarrow> TypeError ''list indices must be integers or slices, not str''
      | PStr s \<Rightarrow> TypeError (''string indices must be integers, not '' @ quoted ''str'')
      | _ \<Rightarrow> TypeError (quoted (type_name v) @ '' object is not subscriptable''))"

text \<open>Line 227: \<^verbatim>\<open>metadata_json['metadata'].append(new_entry)\<close>.\<close>

definition append_entry :: "pyval \<Rightarrow> pyval \<Rightarrow> exn + pyval" where
  "append_entry metadata_json entry =
     (case metadata_json of
        PDict d \<Rightarrow>
          (case map_of d (PStr ''metadata'') of
             None \<Rightarrow> Inl (KeyError (quoted ''metadata''))
           | Some (PList xs) \<Rightarrow> Inr (PDict (dict_set d (PStr ''metadata'') (PList (xs @ [entry]))))
           | Some v \<Rightarrow> Inl (no_attribute v ''append''))
      | _ \<Rightarrow> Inl (subscript_error metadata_json))"

definition success_message :: string where
  "success_message = ''Successfully pushed blog post''"

definition repo_name :: string where
  "repo_name = ''abdullahhsajid/bmd-portfolio''"

text \<open>Sequencing of two steps on the state; an exception ends the sequence.\<close>

definition bind :: "(state \<Rightarrow> (exn + 'a) \<times> state) \<Rightarrow> ('a \<Rightarrow> state \<Rightarrow> (exn + 'b) \<times> state)
    \<Rightarrow> state \<Rightarrow> (exn + 'b) \<times> state" where
  "bind m f s = (case m s of (Inl e, s') \<Rightarrow> (Inl e, s') | (Inr x, s') \<Rightarrow> f x s')"

text \<open>A step that does not touch the state.\<close>

definition lift :: "exn + 'a \<Rightarrow> state \<Rightarrow> (exn + 'a) \<times> state" where
  "lift r s = (r, s)"

text \<open>\<^verbatim>\<open>try: m except Exception as e: raise RuntimeError(f"{prefix}{str(e)}")\<close>.\<close>

definition wrapped :: "string \<Rightarrow> (state \<Rightarrow> (exn + 'a) \<times> state) \<Rightarrow> state \<Rightarrow> (exn + 'a) \<times> state" where
  "wrapped prefix m s = (case m s of (r, s') \<Rightarrow> (rewrap prefix r, s'))"

text \<open>Lines 168 to 171: the token must be set and not empty.\<close>

definition require_token :: "world \<Rightarrow> state \<Rightarrow> (exn + string) \<times> state" where
  "require_token w s =
     (case git_token w of
        None \<Rightarrow> (Inl (ValueError ''GIT_TOKEN not set''), s)
      | Some pat \<Rightarrow> if pat = [] then (Inl (ValueError ''GIT_TOKEN not set''), s) else (Inr pat, s))"

text \<open>The calls of the hosting API: each is recorded, then answered by the world.\<close>

definition repo_get_repo :: "world \<Rightarrow> string \<Rightarrow> state \<Rightarrow> (exn + unit) \<times> state" where
  "repo_get_repo w name s =
     (case get_repo w name of Some e \<Rightarrow> Inl e | None \<Rightarrow> Inr (), emit (GetRepo name) s)"

definition repo_create_file :: "world \<Rightarrow> string \<Rightarrow> string \<Rightarrow> string \<Rightarrow> state \<Rightarrow> (exn + unit) \<times> state" where
  "repo_create_file w path message content s =
     (case create_file w path message content of Some e \<Rightarrow> Inl e | None \<Rightarrow> Inr (),
      emit (CreateFile path message content) s)"

definition repo_update_file :: "world \<Rightarrow> string \<Rightarrow> string \<Rightarrow> string \<Rightarrow> string \<Rightarrow> state \<Rightarrow> (exn + unit) \<times> state" where
  "repo_update_file w path message content revision s =
     (case update_file w path message content revision of Some e \<Rightarrow> Inl e | None \<Rightarrow> Inr (),
      emit (UpdateFile path message content revision) s)"

definition repo_get_contents :: "world \<Rightarrow> string \<Rightarrow> state \<Rightarrow> (exn + contents_file) \<times> state" where
  "repo_get_contents w path s = (get_contents w path, emit (GetContents path) s)"

text \<open>
  Lines 176 to 182: the report must exist; its text is read and stripped.
\<close>

definition read_report :: "world \<Rightarrow> state \<Rightarrow> (exn + string) \<times> state" where
  "read_report w s =
     (case report_file s of
        None \<Rightarrow> (Inl (FileNotFoundError ''Report file missing''), s)
      | Some text \<Rightarrow>
          (case open_read_error w of
             Some e \<Rightarrow> (Inl e, s)
           | None \<Rightarrow> (Inr (strip (universal_newlines text)), s)))"

text \<open>
  Lines 202 to 207: the fetched handle (\<open>None\<close> when \<^verbatim>\<open>metadata_file\<close> was never
  bound) and the in-memory index. The bare \<^verbatim>\<open>except:\<close> swallows a failure of the
  fetch, of the decoding and of \<^verbatim>\<open>json.loads\<close> alike, and leaves the index at
  its initial value.
\<close>

definition fetch_index :: "world \<Rightarrow> state \<Rightarrow> (exn + contents_file option \<times> pyval) \<times> state" where
  "fetch_index w s =
     (case repo_get_contents w index_path s of
        (Inl e, s') \<Rightarrow> (Inr (None, empty_index), s')
      | (Inr metadata_file, s') \<Rightarrow>
          (Inr (Some metadata_file,
                case and_then (decoded metadata_file) (json_loads w) of
                  Inl e \<Rightarrow> empty_index
                | Inr v \<Rightarrow> v), s'))"

text \<open>
  Lines 229 to 248: the index is serialised, then updated in place when the handle
  exists, created otherwise; a failure of either is wrapped.
\<close>

definition push_index :: "world \<Rightarrow> contents_file option \<Rightarrow> pyval \<Rightarrow> state \<Rightarrow> (exn + string) \<times> state" where
  "push_index w metadata_file metadata_json =
     bind
       (wrapped ''Metadata update failed: ''
          (case metadata_file of
             Some f \<Rightarrow>
               bind (lift (json_dumps w metadata_json)) (\<lambda>txt.
                 repo_update_file w index_path ''Update metadata'' txt (sha f))
           | None \<Rightarrow>
               bind (lift (json_dumps w metadata_json)) (\<lambda>txt.
                 repo_create_file w index_path ''Create metadata'' txt)))
       (\<lambda>_. lift (Inr success_message))"

text \<open>
  \<^verbatim>\<open>git_push_callback(task_output)\<close>. Only the two commits are wrapped; what is
  raised by the token check, by \<^verbatim>\<open>get_repo\<close>, for the missing file, by the parse of
  the frontmatter, by the construction of the entry and by the append leaves the
  function as it is.
\<close>

definition git_push_callback :: "world \<Rightarrow> pyval \<Rightarrow> state \<Rightarrow> (exn + string) \<times> state" where
  "git_push_callback w task_output =
     bind (require_token w) (\<lambda>pat.
     bind (repo_get_repo w repo_name) (\<lambda>_.
     bind (read_report w) (\<lambda>content.
     bind (lift (parse_frontmatter w content)) (\<lambda>metadata.
     bind (lift (dict_get metadata ''slug'' (PStr ''default-slug''))) (\<lambda>slug.
       let new_filename = py_str w slug @ ''.md''
       in
     bind (wrapped ''Push failed: ''
             (repo_create_file w (''outstatic/content/blogs/'' @ new_filename)
                (''Add '' @ new_filename) content)) (\<lambda>_.
     bind (fetch_index w) (\<lambda>(metadata_file, metadata_json).
     bind (lift (new_entry w metadata slug)) (\<lambda>entry.
     bind (lift (append_entry metadata_json entry)) (\<lambda>metadata_json'.
       push_index w metadata_file metadata_json')))))))))"

section \<open>The orchestrator and the route\<close>

text \<open>\<^verbatim>\<open>with open("/tmp/report.md", 'w') as f: f.write(blog_content)\<close>.\<close>

definition write_report :: "world \<Rightarrow> string \<Rightarrow> state \<Rightarrow> (exn + unit) \<times> state" where
  "write_report w blog_content s =
     (case open_write_error w of
        Some e \<Rightarrow> (Inl e, s)
      | None \<Rightarrow> (Inr (), s\<lparr>report_file := Some blog_content\<rparr>))"

definition author_name :: string where
  "author_name = ''Abdullah Sajid''"

definition author_picture_url :: string where
  "author_picture_url = ''https://avatars.githubusercontent.com/u/176460407?v=4''"

text \<open>The \<^verbatim>\<open>try\<close> block of \<^verbatim>\<open>run_agent\<close>.\<close>

definition run_agent_try :: "world \<Rightarrow> state \<Rightarrow> (exn + pyval) \<times> state" where
  "run_agent_try w s =
     (let start_time = time_time w s
      in bind (select_category_and_title w) (\<lambda>(selected_category, title).
           let current_datetime_iso = now_iso w @ ''Z'';
               topic = strip title;
               current_year = string_of_nat (now_year w)
           in bind (research_topic w topic current_year) (\<lambda>research_output.
              bind (generate_image_prompt w topic title research_output) (\<lambda>image_prompt.
              bind (generate_and_upload_image w image_prompt title) (\<lambda>cover_image_url.
              bind (write_blog_post w topic research_output author_name author_picture_url
                      cover_image_url current_datetime_iso) (\<lambda>blog_content.
              bind (write_report w blog_content) (\<lambda>_.
              bind (git_push_callback w PNone) (\<lambda>result s'.
                (let total_time = time_time w s' - start_time
                 in (Inr (PDict [(PStr ''result'', PStr result),
                                 (PStr ''execution_time'', PFloat total_time)]), s'))))))))) s)"

definition run_agent :: "world \<Rightarrow> state \<Rightarrow> (exn + pyval) \<times> state" where
  "run_agent w s =
     (case run_agent_try w s of
        (Inl e, s') \<Rightarrow> (Inl (HTTPException 500 (exn_str e)), s')
      | (Inr v, s') \<Rightarrow> (Inr v, s'))"

text \<open>The handler of \<^verbatim>\<open>GET /run-agent\<close>: it calls \<^verbatim>\<open>run_agent()\<close> and returns a fixed object.\<close>

definition trigger_event :: "world \<Rightarrow> state \<Rightarrow> (exn + pyval) \<times> state" where
  "trigger_event w s =
     (case run_agent w s of
        (Inl e, s') \<Rightarrow> (Inl e, s')
      | (Inr v, s') \<Rightarrow>
          (Inr (PDict [(PStr ''message'', PStr ''Agent is running in the background'')]), s'))"

text \<open>
  What the web framework sends for the outcome of a handler: the returned object with
  status 200; for an \<^verbatim>\<open>HTTPException\<close> its status code and its detail; for any other
  exception the plain 500 page.
\<close>

definition http_response :: "exn + pyval \<Rightarrow> nat \<times> pyval" where
  "http_response r =
     (case r of
        Inr v \<Rightarrow> (200, v)
      | Inl (HTTPException code detail) \<Rightarrow> (code, PDict [(PStr ''detail'', PStr detail)])
      | Inl e \<Rightarrow> (500, PStr ''Internal Server Error''))"

section \<open>Predicates of the specification and example worlds\<close>

text \<open>
  The specification asks for a URL-safe slug and does not say which characters that
  allows; this predicate follows its words with the unreserved characters of URLs:
  letters, digits, hyphen, full stop, underscore and tilde.
\<close>

definition url_safe_char :: "char \<Rightarrow> bool" where
  "url_safe_char c \<longleftrightarrow>
     c \<in> set (''abcdefghijklmnopqrstuvwxyz'' @ ''ABCDEFGHIJKLMNOPQRSTUVWXYZ''
              @ ''0123456789'' @ ''-._~'')"

definition url_safe :: "string \<Rightarrow> bool" where
  "url_safe s \<longleftrightarrow> list_all url_safe_char s"

text \<open>
  A world in which every call succeeds. The model writes a post with a one-line
  frontmatter; \<open>demo_yaml\<close> stands for \<^verbatim>\<open>yaml.safe_load\<close> on the few documents the
  examples use, with the value that the library gives for each.
\<close>

definition demo_post :: "string \<Rightarrow> string" where
  "demo_post frontmatter =
     ''---'' @ [CHR 0x0A] @ frontmatter @ [CHR 0x0A] @ ''---'' @ [CHR 0x0A] @ ''Hello''"

definition demo_yaml :: "string \<Rightarrow> exn + pyval" where
  "demo_yaml txt =
     (if txt = ''slug: my-post'' then Inr (PDict [(PStr ''slug'', PStr ''my-post'')])
      else if txt = ''slug: my post'' then Inr (PDict [(PStr ''slug'', PStr ''my post'')])
      else if txt = ''author: Bob'' then Inr (PDict [(PStr ''author'', PStr ''Bob'')])
      else if txt = ''title: Hi'' then Inr (PDict [(PStr ''title'', PStr ''Hi'')])
      else if txt = ''title: A'' then Inr (PDict [(PStr ''title'', PStr ''A'')])
      else if txt = ''title: A --- B'' @ [CHR 0x0A] @ ''slug: my-post''
        then Inr (PDict [(PStr ''title'', PStr ''A --- B''), (PStr ''slug'', PStr ''my-post'')])
      else Inl (OtherError ''a document outside the examples''))"

text \<open>
  A stand-in for \<^verbatim>\<open>json.dumps\<close> that tells how many entries the index holds, and
  refuses anything that is not an index.
\<close>

definition demo_dumps :: "pyval \<Rightarrow> exn + string" where
  "demo_dumps v =
     (case v of
        PDict [(k, PList xs)] \<Rightarrow> Inr (''index of '' @ string_of_nat (length xs))
      | _ \<Rightarrow> Inl (TypeError ''not an index''))"

definition old_entry :: pyval where
  "old_entry = PDict [(PStr ''slug'', PStr ''old-post'')]"

definition demo_world :: "string \<Rightarrow> world" where
  "demo_world frontmatter =
     \<lparr> random_choice = 0,
       chat_completion = (\<lambda>prompt max_tokens.
          Inr (Some (if max_tokens = 600 then demo_post frontmatter else ''Agents at work''))),
       images_generate = (\<lambda>prompt. Inr (Some ''https://img.example/1.png'')),
       requests_get = (\<lambda>url. Inr \<lparr> status_error = None, body = ''PNG'' \<rparr>),
       blob_put = (\<lambda>name data. Inr [(''url'', ''https://blob.example/cover.png'')]),
       clock = (\<lambda>k. of_nat k),
       now_iso = ''2024-05-01T10:00:00'',
       now_year = 2024,
       git_token = Some ''token'',
       get_repo = (\<lambda>name. None),
       create_file = (\<lambda>path message content. None),
       get_contents = (\<lambda>path. Inr \<lparr> decoded = Inr ''old index'', sha = ''abc123'' \<rparr>),
       update_file = (\<lambda>path message content revision. None),
       yaml_safe_load = demo_yaml,
       json_loads = (\<lambda>txt. Inr (PDict [(PStr ''metadata'', PList [old_entry])])),
       json_dumps = demo_dumps,
       py_repr = (\<lambda>v. ''?''),
       open_write_error = None,
       open_read_error = None \<rparr>"

definition state0 :: state where
  "state0 = \<lparr> report_file = None, trace = [] \<rparr>"

text \<open>The state in which the report holds the given text.\<close>

definition report_state :: "string \<Rightarrow> state" where
  "report_state text = \<lparr> report_file = Some text, trace = [] \<rparr>"

text \<open>
  The Publisher can start: the token is set, the repository is reachable, and the
  report exists and can be read. \<open>report_content\<close> is then the content it works on.
\<close>

definition publisher_ready :: "world \<Rightarrow> state \<Rightarrow> bool" where
  "publisher_ready w s \<longleftrightarrow>
     (case git_token w of None \<Rightarrow> False | Some pat \<Rightarrow> pat \<noteq> []) \<and>
     get_repo w repo_name = None \<and> report_file s \<noteq> None \<and> open_read_error w = None"

definition report_content :: "state \<Rightarrow> string" where
  "report_content s =
     (case report_file s of None \<Rightarrow> [] | Some text \<Rightarrow> strip (universal_newlines text))"

text \<open>The events that a step has added to the trace.\<close>

definition new_events :: "state \<Rightarrow> state \<Rightarrow> event list" where
  "new_events s s' = drop (length (trace s)) (trace s')"

text \<open>What the steps after the first commit add to the trace.\<close>

definition index_events :: "event list \<Rightarrow> bool" where
  "index_events evs \<longleftrightarrow>
     evs = [GetContents index_path] \<or>
     (\<exists>c r. evs = [GetContents index_path, UpdateFile index_path ''Update metadata'' c r]) \<or>
     (\<exists>c. evs = [GetContents index_path, CreateFile index_path ''Create metadata'' c])"

text \<open>A world whose model answers every prompt with whitespace.\<close>

definition blank_world :: world where
  "blank_world =
     (demo_world ''slug: my-post'')
       \<lparr>chat_completion := (\<lambda>prompt max_tokens. Inr (Some [CHR 0x20, CHR 0x0A]))\<rparr>"

text \<open>A report whose frontmatter is never closed.\<close>

definition open_post :: string where
  "open_post = ''---'' @ [CHR 0x0A] @ ''title: Hi'' @ [CHR 0x0A] @ ''Hello''"

text \<open>A report without frontmatter.\<close>

definition plain_post :: string where
  "plain_post = ''Hello, no frontmatter here''"

text \<open>A world whose stored index is not valid JSON.\<close>

definition broken_index_world :: world where
  "broken_index_world =
     (demo_world ''slug: my-post'')\<lparr>json_loads := (\<lambda>rtext. Inl (OtherError ''Expecting value''))\<rparr>"

text \<open>
  The entry as the specification describes it: the fields of the frontmatter mapping
  \<open>d\<close> with their defaults, the collection, and the path derived from the slug, once
  under \<^verbatim>\<open>path\<close> and once under \<^verbatim>\<open>__outstatic\<close>. It is compared with
  \<open>new_entry\<close> below.
\<close>

definition field :: "(pyval \<times> pyval) list \<Rightarrow> string \<Rightarrow> pyval \<Rightarrow> pyval" where
  "field d key dflt = (case map_of d (PStr key) of None \<Rightarrow> dflt | Some v \<Rightarrow> v)"

definition spec_entry :: "world \<Rightarrow> (pyval \<times> pyval) list \<Rightarrow> pyval" where
  "spec_entry w d =
     (let slug = field d ''slug'' (PStr ''default-slug'');
          author = (case field d ''author'' (PDict []) of PDict a \<Rightarrow> a | _ \<Rightarrow> []);
          path = PStr (''outstatic/content/blogs/'' @ py_str w slug @ ''.md'')
      in PDict
           [(PStr ''category'', field d ''category'' (PStr ''Uncategorized'')),
            (PStr ''collection'', PStr ''blogs''),
            (PStr ''coverImage'', field d ''coverImage'' (PStr [])),
            (PStr ''description'', field d ''description'' (PStr [])),
            (PStr ''publishedAt'', field d ''publishedAt'' (PStr [])),
            (PStr ''slug'', slug),
            (PStr ''status'', field d ''status'' (PStr ''draft'')),
            (PStr ''title'', field d ''title'' (PStr ''Untitled'')),
            (PStr ''path'', path),
            (PStr ''author'',
               PDict [(PStr ''name'', field author ''name'' (PStr [])),
                      (PStr ''picture'', field author ''picture'' (PStr []))]),
            (PStr ''__outstatic'', PDict [(PStr ''path'', path)])])"

text \<open>The \<^verbatim>\<open>author\<close> of the frontmatter mapping is absent or is itself a mapping.\<close>

definition author_is_mapping :: "(pyval \<times> pyval) list \<Rightarrow> bool" where
  "author_is_mapping d \<longleftrightarrow>
     (case map_of d (PStr ''author'') of
        None \<Rightarrow> True
      | Some (PDict a) \<Rightarrow> True
      | Some _ \<Rightarrow> False)"

text \<open>A world in which the commit of the post is refused.\<close>

definition taken_path_world :: world where
  "taken_path_world =
     (demo_world ''slug: my-post'')
       \<lparr>create_file := (\<lambda>path message content. Some (OtherError ''422 the path is taken''))\<rparr>"

text \<open>
  The frontmatter block as the specification describes it: the content starts with a
  line \<^verbatim>\<open>---\<close>, and the block is made of the lines up to the next line that is
  \<^verbatim>\<open>---\<close>. It is compared with the slice that \<open>parse_frontmatter\<close> takes.
\<close>

fun lines_of :: "string \<Rightarrow> string list" where
  "lines_of [] = [[]]"
| "lines_of (c # cs) =
     (if c = CHR 0x0A then [] # lines_of cs
      else (case lines_of cs of [] \<Rightarrow> [[c]] | l # ls \<Rightarrow> (c # l) # ls))"

fun join_lines :: "string list \<Rightarrow> string" where
  "join_lines [] = []"
| "join_lines [l] = l"
| "join_lines (l # m # ls) = l @ CHR 0x0A # join_lines (m # ls)"

definition spec_frontmatter :: "string \<Rightarrow> string option" where
  "spec_frontmatter content =
     (case lines_of content of
        [] \<Rightarrow> None
      | first # rest \<Rightarrow>
          if first = ''---'' \<and> ''---'' \<in> set rest
          then Some (join_lines (takeWhile (\<lambda>l. l \<noteq> ''---'') rest))
          else None)"

text \<open>A report whose frontmatter holds three hyphens inside the title, and a year with a
  superscript two.\<close>

definition dashed_block :: string where
  "dashed_block = ''title: A --- B'' @ [CHR 0x0A] @ ''slug: my-post''"

definition dashed_post :: string where
  "dashed_post = ''---'' @ [CHR 0x0A] @ dashed_block @ [CHR 0x0A] @ ''---'' @ [CHR 0x0A] @ ''Body''"


section \<open>Lemmas on strings\<close>

lemma dropWhile_all: "(\<forall>x \<in> set (dropWhile P xs). P x) \<longleftrightarrow> (\<forall>x \<in> set xs. P x)"
  by (induction xs) auto

lemma strip_empty_iff: "strip s = [] \<longleftrightarrow> (\<forall>c \<in> set s. isspace_char c)"
  by (simp add: strip_def dropWhile_all)

lemma isdigit_iff: "isdigit s \<longleftrightarrow> s \<noteq> [] \<and> (\<forall>c \<in> set s. isdigit_char c)"
  by (simp add: isdigit_def list_all_iff)

lemma find_at_None_iff:
  "sub \<noteq> [] \<Longrightarrow> find_at sub xs i = None \<longleftrightarrow> (\<forall>j. take (length sub) (drop j xs) \<noteq> sub)"
proof (induction xs arbitrary: i)
  case Nil
  then show ?case by auto
next
  case (Cons c cs)
  show ?case
  proof (cases "take (length sub) (c # cs) = sub")
    case True
    then have "take (length sub) (drop 0 (c # cs)) = sub" by simp
    then have "\<exists>j. take (length sub) (drop j (c # cs)) = sub" by blast
    with True show ?thesis by simp
  next
    case False
    have "(\<forall>j. take (length sub) (drop j (c # cs)) \<noteq> sub) \<longleftrightarrow>
          (\<forall>j. take (length sub) (drop j cs) \<noteq> sub)"
    proof
      assume h: "\<forall>j. take (length sub) (drop j (c # cs)) \<noteq> sub"
      show "\<forall>j. take (length sub) (drop j cs) \<noteq> sub"
      proof
        fix j
        from h have "take (length sub) (drop (Suc j) (c # cs)) \<noteq> sub" by blast
        then show "take (length sub) (drop j cs) \<noteq> sub" by simp
      qed
    next
      assume h: "\<forall>j. take (length sub) (drop j cs) \<noteq> sub"
      show "\<forall>j. take (length sub) (drop j (c # cs)) \<noteq> sub"
      proof
        fix j
        show "take (length sub) (drop j (c # cs)) \<noteq> sub"
          using h False by (cases j) auto
      qed
    qed
    with False Cons.IH [OF Cons.prems] show ?thesis by simp
  qed
qed

lemma str_index_None_iff:
  assumes "sub \<noteq> []"
  shows "str_index s sub start = None \<longleftrightarrow> (\<forall>i\<ge>start. take (length sub) (drop i s) \<noteq> sub)"
proof (cases "start \<le> length s")
  case True
  have "(\<forall>j. take (length sub) (drop j (drop start s)) \<noteq> sub) \<longleftrightarrow>
        (\<forall>i\<ge>start. take (length sub) (drop i s) \<noteq> sub)"
  proof
    assume h: "\<forall>j. take (length sub) (drop j (drop start s)) \<noteq> sub"
    show "\<forall>i\<ge>start. take (length sub) (drop i s) \<noteq> sub"
    proof (intro allI impI)
      fix i assume "start \<le> i"
      then have "drop i s = drop (i - start) (drop start s)" by simp
      with h show "take (length sub) (drop i s) \<noteq> sub" by metis
    qed
  next
    assume h: "\<forall>i\<ge>start. take (length sub) (drop i s) \<noteq> sub"
    show "\<forall>j. take (length sub) (drop j (drop start s)) \<noteq> sub"
    proof
      fix j
      have "drop j (drop start s) = drop (j + start) s" by simp
      moreover from h have "take (length sub) (drop (j + start) s) \<noteq> sub" by simp
      ultimately show "take (length sub) (drop j (drop start s)) \<noteq> sub" by simp
    qed
  qed
  with True assms show ?thesis by (simp add: str_index_def find_at_None_iff)
next
  case False
  then have "\<forall>i\<ge>start. drop i s = []" by simp
  with False assms show ?thesis by (auto simp: str_index_def)
qed

text \<open>Where the search finds the delimiter that closes a block without hyphens of its own.\<close>

lemma no_delimiter_iff:
  "find_at ''---'' xs k = None \<longleftrightarrow> (\<forall>i. take 3 (drop i xs) \<noteq> ''---'')"
  using find_at_None_iff [of "''---''" xs k] by (simp add: numeral_3_eq_3)

lemma take_append_long: "n \<le> length xs \<Longrightarrow> take n (xs @ ys) = take n xs"
  by simp

lemma find_at_closing:
  assumes "\<forall>i. take 3 (drop i (block @ ''--'')) \<noteq> ''---''"
  shows "find_at ''---'' (block @ ''---'' @ rest) k = Some (k + length block)"
  using assms
proof (induction block arbitrary: k)
  case Nil
  then show ?case by simp
next
  case (Cons x xs)
  from Cons.prems have "take 3 (drop 0 ((x # xs) @ ''--'')) \<noteq> ''---''" by blast
  then have a: "take 3 ((x # xs) @ ''--'') \<noteq> ''---''" by simp
  have "take 3 (((x # xs) @ ''--'') @ (''-'' @ rest)) = take 3 ((x # xs) @ ''--'')"
    by (rule take_append_long) simp
  with a have first: "take 3 (x # xs @ ''---'' @ rest) \<noteq> ''---''" by simp
  have "\<forall>i. take 3 (drop i (xs @ ''--'')) \<noteq> ''---''"
  proof
    fix i
    from Cons.prems have "take 3 (drop (Suc i) ((x # xs) @ ''--'')) \<noteq> ''---''" by blast
    then show "take 3 (drop i (xs @ ''--'')) \<noteq> ''---''" by simp
  qed
  from Cons.IH [OF this, of "Suc k"] first show ?case
    by (simp add: numeral_3_eq_3)
qed

lemma closing_delimiter:
  assumes "content = ''---'' @ block @ ''---'' @ rest"
    and "\<forall>i. take 3 (drop i (block @ ''--'')) \<noteq> ''---''"
  shows "startswith content ''---''"
    and "str_index content ''---'' 3 = Some (3 + length block)"
    and "slice content 3 (3 + length block) = block"
  using assms(1) find_at_closing [OF assms(2), of rest 3]
  by (simp_all add: startswith_def str_index_def slice_def)

section \<open>Lemmas on the text-generation stages\<close>

text \<open>The two guards of \<^verbatim>\<open>research_topic\<close>, on the characters that \<^verbatim>\<open>str.isspace\<close> and
  \<^verbatim>\<open>str.isdigit\<close> accept.\<close>

lemma research_topic_validation:
  assumes "topic = [] \<or> (\<forall>c \<in> set topic. isspace_char c)
           \<or> (\<exists>c \<in> set current_year. \<not> isdigit_char c)"
  shows "research_topic w topic current_year s =
           (Inl (ValueError (if \<forall>c \<in> set topic. isspace_char c then ''Topic cannot be empty''
                             else ''Current year must be a number'')), s)"
  using assms by (auto simp: research_topic_def strip_empty_iff isdigit_iff)

lemma stripped_content_empty:
  "strip reply = [] \<Longrightarrow> stripped_content (Inr (Some reply)) msg = Inl (ValueError msg)"
  by (simp add: stripped_content_def)

lemma stripped_content_nonempty: "stripped_content r msg \<noteq> Inr []"
  by (auto simp: stripped_content_def Let_def split: sum.splits option.splits)

lemma rewrap_nonempty: "r \<noteq> Inr [] \<Longrightarrow> rewrap prefix r \<noteq> Inr []"
  by (auto simp: rewrap_def split: sum.splits)

section \<open>Lemmas on sequencing and on the start of the Publisher\<close>

lemma bind_lift: "bind (lift r) f s = (case r of Inl e \<Rightarrow> (Inl e, s) | Inr x \<Rightarrow> f x s)"
  by (simp add: bind_def lift_def split: sum.splits)

lemma bind_Inr: "m s = (Inr x, s') \<Longrightarrow> bind m f s = f x s'"
  by (simp add: bind_def)

lemma bind_Inl: "m s = (Inl e, s') \<Longrightarrow> bind m f s = (Inl e, s')"
  by (simp add: bind_def)

text \<open>
  Once the Publisher can start, it records the call of \<^verbatim>\<open>get_repo\<close> and goes on
  with the content of the report.
\<close>

lemma publisher_start:
  assumes "publisher_ready w s"
  shows "git_push_callback w task_output s =
     bind (lift (parse_frontmatter w (report_content s))) (\<lambda>metadata.
     bind (lift (dict_get metadata ''slug'' (PStr ''default-slug''))) (\<lambda>slug.
       let new_filename = py_str w slug @ ''.md''
       in
     bind (wrapped ''Push failed: ''
             (repo_create_file w (''outstatic/content/blogs/'' @ new_filename)
                (''Add '' @ new_filename) (report_content s))) (\<lambda>_.
     bind (fetch_index w) (\<lambda>(metadata_file, metadata_json).
     bind (lift (new_entry w metadata slug)) (\<lambda>entry.
     bind (lift (append_entry metadata_json entry)) (\<lambda>metadata_json'.
       push_index w metadata_file metadata_json'))))))
     (emit (GetRepo repo_name) s)"
proof -
  from assms obtain pat rtext where h: "git_token w = Some pat" "pat \<noteq> []"
    "get_repo w repo_name = None" "report_file s = Some rtext" "open_read_error w = None"
    by (auto simp: publisher_ready_def split: option.splits)
  have 1: "require_token w s = (Inr pat, s)"
    using h by (simp add: require_token_def)
  have 2: "repo_get_repo w repo_name s = (Inr (), emit (GetRepo repo_name) s)"
    using h by (simp add: repo_get_repo_def)
  have 3: "read_report w (emit (GetRepo repo_name) s)
             = (Inr (report_content s), emit (GetRepo repo_name) s)"
    using h by (simp add: read_report_def report_content_def emit_def)
  show ?thesis
    unfolding git_push_callback_def
    by (simp add: bind_Inr [where m = "require_token w", OF 1]
        bind_Inr [where m = "repo_get_repo w repo_name", OF 2]
        bind_Inr [where m = "read_report w", OF 3])
qed

lemma publisher_create:
  assumes "publisher_ready w s"
    and "parse_frontmatter w (report_content s) = Inr metadata"
    and "dict_get metadata ''slug'' (PStr ''default-slug'') = Inr slug"
  shows "git_push_callback w task_output s =
     bind (wrapped ''Push failed: ''
             (repo_create_file w (blog_path w slug) (''Add '' @ py_str w slug @ ''.md'')
                (report_content s))) (\<lambda>_.
     bind (fetch_index w) (\<lambda>(metadata_file, metadata_json).
     bind (lift (new_entry w metadata slug)) (\<lambda>entry.
     bind (lift (append_entry metadata_json entry)) (\<lambda>metadata_json'.
       push_index w metadata_file metadata_json'))))
     (emit (GetRepo repo_name) s)"
  using assms(2,3) by (simp add: publisher_start [OF assms(1)] bind_lift blog_path_def Let_def)

lemma push_index_events:
  "push_index w mf mj s = (r, s') \<Longrightarrow>
     trace s' = trace s \<or>
     (\<exists>c rv. trace s' = trace s @ [UpdateFile index_path ''Update metadata'' c rv]) \<or>
     (\<exists>c. trace s' = trace s @ [CreateFile index_path ''Create metadata'' c])"
  by (auto simp: push_index_def bind_def wrapped_def lift_def rewrap_def repo_update_file_def
      repo_create_file_def emit_def split: option.splits sum.splits prod.splits)

lemma index_steps_events:
  assumes "bind (fetch_index w) (\<lambda>(metadata_file, metadata_json).
     bind (lift ne) (\<lambda>entry.
     bind (lift (append_entry metadata_json entry)) (\<lambda>metadata_json'.
       push_index w metadata_file metadata_json'))) s = (r, s')"
  shows "\<exists>evs. trace s' = trace s @ evs \<and> index_events evs"
proof -
  have "\<exists>mf mj. fetch_index w s = (Inr (mf, mj), emit (GetContents index_path) s)"
    by (cases "get_contents w index_path") (simp_all add: fetch_index_def repo_get_contents_def)
  then obtain mf mj where f: "fetch_index w s = (Inr (mf, mj), emit (GetContents index_path) s)"
    by blast
  show ?thesis
  proof (cases "and_then ne (append_entry mj)")
    case (Inl e)
    with assms f have "s' = emit (GetContents index_path) s"
      by (auto simp: bind_def lift_def and_then_def split: sum.splits)
    then show ?thesis by (simp add: emit_def index_events_def)
  next
    case (Inr mj')
    with assms f have "push_index w mf mj' (emit (GetContents index_path) s) = (r, s')"
      by (auto simp: bind_def lift_def and_then_def split: sum.splits)
    from push_index_events [OF this] show ?thesis
      by (auto simp: emit_def index_events_def)
  qed
qed

lemma publisher_events:
  assumes "publisher_ready w s"
    and "parse_frontmatter w (report_content s) = Inr metadata"
    and "dict_get metadata ''slug'' (PStr ''default-slug'') = Inr slug"
    and "git_push_callback w task_output s = (r, s')"
  shows "\<exists>evs. new_events s s' =
            [GetRepo repo_name,
             CreateFile (blog_path w slug) (''Add '' @ py_str w slug @ ''.md'') (report_content s)] @ evs
          \<and> (evs = [] \<or> index_events evs)"
proof (cases "create_file w (blog_path w slug) (''Add '' @ py_str w slug @ ''.md'') (report_content s)")
  case (Some e)
  with assms(4) show ?thesis
    unfolding publisher_create [OF assms(1-3)]
    by (auto simp: bind_def wrapped_def repo_create_file_def rewrap_def emit_def new_events_def)
next
  case None
  let ?s2 = "emit (CreateFile (blog_path w slug) (''Add '' @ py_str w slug @ ''.md'') (report_content s))
               (emit (GetRepo repo_name) s)"
  from None assms(4) have "bind (fetch_index w) (\<lambda>(metadata_file, metadata_json).
     bind (lift (new_entry w metadata slug)) (\<lambda>entry.
     bind (lift (append_entry metadata_json entry)) (\<lambda>metadata_json'.
       push_index w metadata_file metadata_json'))) ?s2 = (r, s')"
    unfolding publisher_create [OF assms(1-3)]
    by (simp add: bind_def wrapped_def repo_create_file_def rewrap_def)
  from index_steps_events [OF this] show ?thesis
    by (auto simp: emit_def new_events_def)
qed

lemma no_second_delimiter:
  "str_index s ''---'' 3 = None \<longleftrightarrow> (\<forall>i\<ge>3. take 3 (drop i s) \<noteq> ''---'')"
  using str_index_None_iff [of "''---''" s 3] by (simp add: numeral_3_eq_3)

lemma demo_ready: "publisher_ready (demo_world fm) (report_state t)"
  by (simp add: publisher_ready_def demo_world_def report_state_def)

lemma create_file_failed:
  "create_file w path message content = Some e \<Longrightarrow>
   bind (wrapped ''Push failed: '' (repo_create_file w path message content)) f s
     = (Inl (RuntimeError (''Push failed: '' @ exn_str e)), emit (CreateFile path message content) s)"
  by (simp add: bind_def wrapped_def repo_create_file_def rewrap_def)

lemma create_file_done:
  "create_file w path message content = None \<Longrightarrow>
   bind (wrapped ''Push failed: '' (repo_create_file w path message content)) f s
     = f () (emit (CreateFile path message content) s)"
  by (simp add: bind_def wrapped_def repo_create_file_def rewrap_def)

text \<open>The definitions that a run of the Publisher in a concrete world unfolds.\<close>

lemmas publisher_defs =
  git_push_callback_def bind_def lift_def wrapped_def rewrap_def require_token_def
  repo_get_repo_def read_report_def repo_create_file_def repo_update_file_def
  repo_get_contents_def fetch_index_def push_index_def parse_frontmatter_def
  startswith_def str_index_def slice_def strip_def isspace_char_def dict_get_def
  new_entry_def append_entry_def and_then_def py_str_def blog_path_def
  demo_world_def demo_yaml_def demo_post_def report_state_def emit_def
  repo_name_def index_path_def success_message_def empty_index_def Let_def
  demo_dumps_def string_of_nat.simps digit_char_def

lemma fetch_index_state: "snd (fetch_index w s) = emit (GetContents index_path) s"
  by (cases "get_contents w index_path") (simp_all add: fetch_index_def repo_get_contents_def)

lemma fetch_index_value: "fst (fetch_index w s) = fst (fetch_index w s0)"
  by (cases "get_contents w index_path") (simp_all add: fetch_index_def repo_get_contents_def)

lemma publisher_push:
  assumes "publisher_ready w s"
    and "parse_frontmatter w (report_content s) = Inr metadata"
    and "dict_get metadata ''slug'' (PStr ''default-slug'') = Inr slug"
    and "create_file w (blog_path w slug) (''Add '' @ py_str w slug @ ''.md'') (report_content s) = None"
    and "fst (fetch_index w s0) = Inr (metadata_file, metadata_json)"
    and "new_entry w metadata slug = Inr entry"
    and "append_entry metadata_json entry = Inr metadata_json'"
  shows "git_push_callback w task_output s =
           push_index w metadata_file metadata_json'
             (emit (GetContents index_path)
               (emit (CreateFile (blog_path w slug) (''Add '' @ py_str w slug @ ''.md'') (report_content s))
                 (emit (GetRepo repo_name) s)))"
proof -
  let ?s2 = "emit (CreateFile (blog_path w slug) (''Add '' @ py_str w slug @ ''.md'') (report_content s))
               (emit (GetRepo repo_name) s)"
  have "fst (fetch_index w ?s2) = Inr (metadata_file, metadata_json)"
    using assms(5) fetch_index_value [of w ?s2 s0] by simp
  then have f: "fetch_index w ?s2 = (Inr (metadata_file, metadata_json), emit (GetContents index_path) ?s2)"
    using fetch_index_state [of w ?s2] by (cases "fetch_index w ?s2") simp
  show ?thesis
    unfolding publisher_create [OF assms(1-3), of task_output] create_file_done [OF assms(4)]
      bind_Inr [where m = "fetch_index w", OF f]
    by (simp add: bind_lift assms(6,7))
qed

lemma push_index_update:
  assumes "json_dumps w metadata_json = Inr out"
  shows "push_index w (Some f) metadata_json s =
          (case update_file w index_path ''Update metadata'' out (sha f) of
             Some e \<Rightarrow> Inl (RuntimeError (''Metadata update failed: '' @ exn_str e))
           | None \<Rightarrow> Inr success_message,
           emit (UpdateFile index_path ''Update metadata'' out (sha f)) s)"
  using assms
  by (simp add: push_index_def bind_def wrapped_def lift_def repo_update_file_def rewrap_def
      split: option.splits)

lemma dict_get_field: "dict_get (PDict d) key dflt = Inr (field d key dflt)"
  by (simp add: dict_get_def field_def split: option.splits)

lemma new_entry_spec:
  assumes "author_is_mapping d"
  shows "new_entry w (PDict d) (field d ''slug'' (PStr ''default-slug'')) = Inr (spec_entry w d)"
proof (cases "map_of d (PStr ''author'')")
  case None
  then show ?thesis
    by (simp add: new_entry_def spec_entry_def dict_get_field and_then_def blog_path_def Let_def
        field_def)
next
  case (Some a)
  with assms obtain ad where "a = PDict ad"
    by (auto simp: author_is_mapping_def split: pyval.splits)
  with Some have "field d ''author'' (PDict []) = PDict ad"
    by (simp add: field_def)
  then show ?thesis
    by (simp add: new_entry_def spec_entry_def dict_get_field and_then_def blog_path_def Let_def)
qed

section \<open>Lemmas on the result of a run\<close>

lemma bind_InrD:
  "bind m f s = (Inr y, s') \<Longrightarrow> \<exists>x s1. m s = (Inr x, s1) \<and> f x s1 = (Inr y, s')"
  by (auto simp: bind_def split: prod.splits sum.splits)

lemma push_index_result: "push_index w mf mj s = (Inr r, s') \<Longrightarrow> r = success_message"
  by (auto simp: push_index_def lift_def dest!: bind_InrD)

lemma git_push_callback_result:
  assumes "git_push_callback w task_output s = (Inr r, s')"
  shows "r = success_message"
proof -
  from assms show ?thesis
    unfolding git_push_callback_def Let_def
    by (auto dest!: bind_InrD dest: push_index_result)
qed

lemma run_agent_try_result:
  assumes "run_agent_try w s = (Inr v, s')"
  shows "v = PDict [(PStr ''result'', PStr success_message),
                    (PStr ''execution_time'', PFloat (time_time w s' - time_time w s))]"
  using assms unfolding run_agent_try_def Let_def
  by (auto dest!: bind_InrD dest: git_push_callback_result)


text \<open>The definitions that a run of the whole pipeline in a concrete world unfolds.\<close>

lemmas pipeline_defs =
  run_agent_def run_agent_try_def trigger_event_def http_response_def
  select_category_and_title_def research_topic_def generate_image_prompt_def
  write_blog_post_def generate_and_upload_image_def image_chain_def chat_create_def
  stripped_content_def write_report_def categories_def isdigit_def isdigit_char_def
  time_time_def state0_def placeholder_url_def

text \<open>The run of the whole pipeline in the world in which every call succeeds.\<close>

lemma demo_run:
  "fst (run_agent (demo_world ''slug: my-post'') state0)
     = Inr (PDict [(PStr ''result'', PStr ''Successfully pushed blog post''),
                   (PStr ''execution_time'', PFloat 11)])
   \<and> http_response (fst (trigger_event (demo_world ''slug: my-post'') state0))
     = (200, PDict [(PStr ''message'', PStr ''Agent is running in the background'')])
   \<and> length (trace (snd (run_agent (demo_world ''slug: my-post'') state0))) = 11"
  by (simp add: pipeline_defs publisher_defs)

text \<open>The storage key of the example title is lower case.\<close>

lemma lower_demo: "lower ''Agents At Work'' = ''agents at work''"
  by code_simp

section \<open>The claims\<close>

text \<open>
  Claim C2. For every image prompt and title, \<^verbatim>\<open>generate_and_upload_image\<close> returns a
  URL and raises nothing. When the generation, the download and the upload all succeed
  and the reply of the upload holds a \<^verbatim>\<open>url\<close>, that URL is returned, after the
  three calls. When the generation fails, when the download fails (the request or its
  status check) or when the upload fails (the call or the missing key), the literal
  placeholder is returned, after the calls made up to the failure.
\<close>

theorem image_producer_never_raises:
  "(\<exists>url s'. generate_and_upload_image w image_prompt title s = (Inr url, s'))
   \<and> ((\<exists>s'. generate_and_upload_image w image_prompt title s = (Inr placeholder_url, s')) \<or>
      (\<exists>image_url reply resp url s'.
         images_generate w image_prompt = Inr image_url \<and>
         requests_get w image_url = Inr reply \<and> status_error reply = None \<and>
         blob_put w (blob_filename w title (emit (HttpGet image_url) (emit (ImageCall image_prompt) s)))
           (body reply) = Inr resp \<and>
         map_of resp ''url'' = Some url \<and>
         generate_and_upload_image w image_prompt title s = (Inr url, s')))
   \<and> (\<forall>image_url reply resp url.
        images_generate w image_prompt = Inr image_url \<longrightarrow>
        requests_get w image_url = Inr reply \<longrightarrow> status_error reply = None \<longrightarrow>
        blob_put w (blob_filename w title (emit (HttpGet image_url) (emit (ImageCall image_prompt) s)))
          (body reply) = Inr resp \<longrightarrow>
        map_of resp ''url'' = Some url \<longrightarrow>
        generate_and_upload_image w image_prompt title s =
          (Inr url,
           emit (BlobPut (blob_filename w title (emit (HttpGet image_url) (emit (ImageCall image_prompt) s)))
                   (body reply))
             (emit (HttpGet image_url) (emit (ImageCall image_prompt) s))))
   \<and> (\<forall>e. images_generate w image_prompt = Inl e \<longrightarrow>
        generate_and_upload_image w image_prompt title s =
          (Inr placeholder_url, emit (ImageCall image_prompt) s))
   \<and> (\<forall>image_url e. images_generate w image_prompt = Inr image_url \<longrightarrow>
        requests_get w image_url = Inl e \<longrightarrow>
        generate_and_upload_image w image_prompt title s =
          (Inr placeholder_url, emit (HttpGet image_url) (emit (ImageCall image_prompt) s)))
   \<and> (\<forall>image_url reply e. images_generate w image_prompt = Inr image_url \<longrightarrow>
        requests_get w image_url = Inr reply \<longrightarrow> status_error reply = Some e \<longrightarrow>
        generate_and_upload_image w image_prompt title s =
          (Inr placeholder_url, emit (HttpGet image_url) (emit (ImageCall image_prompt) s)))
   \<and> (\<forall>image_url reply. images_generate w image_prompt = Inr image_url \<longrightarrow>
        requests_get w image_url = Inr reply \<longrightarrow> status_error reply = None \<longrightarrow>
        (\<forall>resp. blob_put w (blob_filename w title (emit (HttpGet image_url) (emit (ImageCall image_prompt) s)))
           (body reply) = Inr resp \<longrightarrow> map_of resp ''url'' = None) \<longrightarrow>
        generate_and_upload_image w image_prompt title s =
          (Inr placeholder_url,
           emit (BlobPut (blob_filename w title (emit (HttpGet image_url) (emit (ImageCall image_prompt) s)))
                   (body reply))
             (emit (HttpGet image_url) (emit (ImageCall image_prompt) s))))"
  by (auto simp: generate_and_upload_image_def image_chain_def Let_def
      split: sum.splits option.splits)

theorem image_producer_never_raises_witness:
  "generate_and_upload_image (demo_world ''slug: my-post'') ''a robot'' ''Agents At Work'' state0
     = (Inr ''https://blob.example/cover.png'',
        \<lparr>report_file = None,
          trace = [ImageCall ''a robot'', HttpGet (Some ''https://img.example/1.png''),
                   BlobPut ''images/agents-at-work-2.png'' ''PNG'']\<rparr>)
   \<and> generate_and_upload_image
          ((demo_world ''slug: my-post'')\<lparr>images_generate := (\<lambda>prompt. Inl (OtherError ''quota''))\<rparr>)
          ''a robot'' ''Agents At Work'' state0
     = (Inr ''https://example.com/placeholder.jpg'',
        \<lparr>report_file = None, trace = [ImageCall ''a robot'']\<rparr>)
   \<and> generate_and_upload_image
          ((demo_world ''slug: my-post'')\<lparr>requests_get := (\<lambda>url. Inl (OtherError ''timeout''))\<rparr>)
          ''a robot'' ''Agents At Work'' state0
     = (Inr ''https://example.com/placeholder.jpg'',
        \<lparr>report_file = None,
          trace = [ImageCall ''a robot'', HttpGet (Some ''https://img.example/1.png'')]\<rparr>)
   \<and> generate_and_upload_image
          ((demo_world ''slug: my-post'')\<lparr>blob_put := (\<lambda>name data. Inl (OtherError ''denied''))\<rparr>)
          ''a robot'' ''Agents At Work'' state0
     = (Inr ''https://example.com/placeholder.jpg'',
        \<lparr>report_file = None,
          trace = [ImageCall ''a robot'', HttpGet (Some ''https://img.example/1.png''),
                   BlobPut ''images/agents-at-work-2.png'' ''PNG'']\<rparr>)"
  using image_producer_never_raises [of "demo_world ''slug: my-post''" "''a robot''" "''Agents At Work''" state0]
    image_producer_never_raises
      [of "(demo_world ''slug: my-post'')\<lparr>images_generate := (\<lambda>prompt. Inl (OtherError ''quota''))\<rparr>"
          "''a robot''" "''Agents At Work''" state0]
    image_producer_never_raises
      [of "(demo_world ''slug: my-post'')\<lparr>requests_get := (\<lambda>url. Inl (OtherError ''timeout''))\<rparr>"
          "''a robot''" "''Agents At Work''" state0]
    image_producer_never_raises
      [of "(demo_world ''slug: my-post'')\<lparr>blob_put := (\<lambda>name data. Inl (OtherError ''denied''))\<rparr>"
          "''a robot''" "''Agents At Work''" state0]
  by (simp add: demo_world_def generate_and_upload_image_def image_chain_def placeholder_url_def
      Let_def state0_def emit_def blob_filename_def lower_demo replace_char_def
      time_time_def int_of_float_def string_of_int_def string_of_nat.simps digit_char_def)


text \<open>
  Claim C8. In each of the four text-generation stages (title selection, research,
  image-prompt building, post writing), a reply of the model that is empty after
  stripping makes the stage raise its stage failure, a \<^verbatim>\<open>RuntimeError\<close>; and no
  stage ever returns the empty string.
\<close>

theorem empty_model_text_fails_the_stage:
  "(chat_completion w (title_prompt (categories ! (random_choice w mod length categories))) 50
        = Inr (Some reply) \<and> strip reply = [] \<longrightarrow>
      fst (select_category_and_title w s)
        = Inl (RuntimeError ''Title generation failed: Empty title response''))
   \<and> (strip topic \<noteq> [] \<and> isdigit current_year \<and>
      chat_completion w (research_prompt topic current_year) 300 = Inr (Some reply) \<and>
      strip reply = [] \<longrightarrow>
      fst (research_topic w topic current_year s)
        = Inl (RuntimeError ''Research failed: Empty OpenAI response''))
   \<and> (chat_completion w (image_prompt_prompt topic title research_output) 50 = Inr (Some reply) \<and>
      strip reply = [] \<longrightarrow>
      fst (generate_image_prompt w topic title research_output s)
        = Inl (RuntimeError ''Image prompt generation failed: Empty image prompt response''))
   \<and> (chat_completion w (blog_prompt topic research_output name picture cover date) 600
        = Inr (Some reply) \<and> strip reply = [] \<longrightarrow>
      fst (write_blog_post w topic research_output name picture cover date s)
        = Inl (RuntimeError ''Blog post failed: Empty OpenAI response''))
   \<and> (\<forall>category. fst (select_category_and_title w s) \<noteq> Inr (category, []))
   \<and> fst (research_topic w topic current_year s) \<noteq> Inr []
   \<and> fst (generate_image_prompt w topic title research_output s) \<noteq> Inr []
   \<and> fst (write_blog_post w topic research_output name picture cover date s) \<noteq> Inr []"
proof (intro conjI impI allI)
  assume "chat_completion w (title_prompt (categories ! (random_choice w mod length categories))) 50
        = Inr (Some reply) \<and> strip reply = []"
  then show "fst (select_category_and_title w s)
        = Inl (RuntimeError ''Title generation failed: Empty title response'')"
    by (simp add: select_category_and_title_def chat_create_def stripped_content_empty rewrap_def)
next
  assume "strip topic \<noteq> [] \<and> isdigit current_year \<and>
      chat_completion w (research_prompt topic current_year) 300 = Inr (Some reply) \<and>
      strip reply = []"
  moreover from this have "topic \<noteq> []" by (auto simp: strip_def)
  ultimately show "fst (research_topic w topic current_year s)
        = Inl (RuntimeError ''Research failed: Empty OpenAI response'')"
    by (simp add: research_topic_def chat_create_def stripped_content_empty rewrap_def)
next
  assume "chat_completion w (image_prompt_prompt topic title research_output) 50 = Inr (Some reply) \<and>
      strip reply = []"
  then show "fst (generate_image_prompt w topic title research_output s)
        = Inl (RuntimeError ''Image prompt generation failed: Empty image prompt response'')"
    by (simp add: generate_image_prompt_def chat_create_def stripped_content_empty rewrap_def)
next
  assume "chat_completion w (blog_prompt topic research_output name picture cover date) 600
        = Inr (Some reply) \<and> strip reply = []"
  then show "fst (write_blog_post w topic research_output name picture cover date s)
        = Inl (RuntimeError ''Blog post failed: Empty OpenAI response'')"
    by (simp add: write_blog_post_def chat_create_def stripped_content_empty rewrap_def)
next
  fix category
  show "fst (select_category_and_title w s) \<noteq> Inr (category, [])"
    using stripped_content_nonempty
      [of "chat_completion w (title_prompt (categories ! (random_choice w mod length categories))) 50"
          "''Empty title response''"]
    by (auto simp: select_category_and_title_def chat_create_def rewrap_def Let_def
        split: sum.splits)
next
  show "fst (research_topic w topic current_year s) \<noteq> Inr []"
    using rewrap_nonempty [OF stripped_content_nonempty]
    by (simp add: research_topic_def chat_create_def)
next
  show "fst (generate_image_prompt w topic title research_output s) \<noteq> Inr []"
    using rewrap_nonempty [OF stripped_content_nonempty]
    by (simp add: generate_image_prompt_def chat_create_def)
next
  show "fst (write_blog_post w topic research_output name picture cover date s) \<noteq> Inr []"
    using rewrap_nonempty [OF stripped_content_nonempty]
    by (simp add: write_blog_post_def chat_create_def)
qed

theorem empty_model_text_fails_the_stage_witness:
  "fst (select_category_and_title blank_world state0)
     = Inl (RuntimeError ''Title generation failed: Empty title response'')
   \<and> fst (research_topic blank_world ''AI agents'' ''2024'' state0)
     = Inl (RuntimeError ''Research failed: Empty OpenAI response'')
   \<and> fst (generate_image_prompt blank_world ''AI agents'' ''AI agents'' ''notes'' state0)
     = Inl (RuntimeError ''Image prompt generation failed: Empty image prompt response'')
   \<and> fst (write_blog_post blank_world ''AI agents'' ''notes'' ''A'' ''B'' ''C'' ''D'' state0)
     = Inl (RuntimeError ''Blog post failed: Empty OpenAI response'')"
  using empty_model_text_fails_the_stage
      [of blank_world "[CHR 0x20, CHR 0x0A]" state0 "''AI agents''" "''2024''" "''AI agents''"
          "''notes''" "''A''" "''B''" "''C''" "''D''"]
  by (simp add: blank_world_def demo_world_def strip_def isspace_char_def isdigit_def
      isdigit_char_def)

text \<open>
  Claim C9. When the content of the report starts with \<^verbatim>\<open>---\<close> and holds no further
  \<^verbatim>\<open>---\<close> at or after index 3, the substring search raises its
  \<^verbatim>\<open>ValueError\<close>, and \<^verbatim>\<open>git_push_callback\<close> lets it through as it is, not
  wrapped in a \<^verbatim>\<open>RuntimeError\<close>; only the call of \<^verbatim>\<open>get_repo\<close> has been made.
\<close>

theorem unterminated_frontmatter_escapes:
  assumes "publisher_ready w s"
    and "startswith (report_content s) ''---''"
    and "\<forall>i\<ge>3. take 3 (drop i (report_content s)) \<noteq> ''---''"
  shows "git_push_callback w task_output s
           = (Inl (ValueError ''substring not found''), emit (GetRepo repo_name) s)"
proof -
  have "str_index (report_content s) ''---'' 3 = None"
    using assms(3) by (simp add: no_second_delimiter)
  with assms(2) have "parse_frontmatter w (report_content s) = Inl (ValueError ''substring not found'')"
    by (simp add: parse_frontmatter_def)
  then show ?thesis
    by (simp add: publisher_start [OF assms(1)] bind_lift)
qed

theorem unterminated_frontmatter_escapes_witness:
  "git_push_callback (demo_world ''title: Hi'') PNone (report_state open_post)
     = (Inl (ValueError ''substring not found''),
        \<lparr>report_file = Some open_post, trace = [GetRepo ''abdullahhsajid/bmd-portfolio'']\<rparr>)"
proof -
  have c: "report_content (report_state open_post) = open_post"
    by (simp add: report_content_def report_state_def open_post_def strip_def isspace_char_def)
  have 1: "startswith (report_content (report_state open_post)) ''---''"
    unfolding c by (simp add: open_post_def startswith_def)
  have "str_index open_post ''---'' 3 = None"
    by (simp add: open_post_def str_index_def)
  then have 2: "\<forall>i\<ge>3. take 3 (drop i (report_content (report_state open_post))) \<noteq> ''---''"
    unfolding c by (simp add: no_second_delimiter)
  show ?thesis
    using unterminated_frontmatter_escapes
      [OF demo_ready [of "''title: Hi''" open_post] 1 2, where task_output = PNone]
    by (simp add: emit_def report_state_def repo_name_def)
qed

text \<open>
  Claim C4, as the code has it. When the content of the report is \<^verbatim>\<open>---\<close>, a block,
  \<^verbatim>\<open>---\<close> and the rest, where no \<^verbatim>\<open>---\<close> begins inside the block, and the
  block loads as a mapping whose \<^verbatim>\<open>slug\<close> is \<^verbatim>\<open>my-post\<close>, the Publisher commits
  the content to \<^verbatim>\<open>outstatic/content/blogs/my-post.md\<close>: that call follows
  \<^verbatim>\<open>get_repo\<close>, only calls on the index file come after it, and its failure is the
  failure of the stage.
\<close>

theorem publisher_commits_at_slug_path:
  assumes "publisher_ready w s"
    and "report_content s = ''---'' @ block @ ''---'' @ rest"
    and "\<forall>i. take 3 (drop i (block @ ''--'')) \<noteq> ''---''"
    and "yaml_safe_load w (strip block) = Inr (PDict d)"
    and "map_of d (PStr ''slug'') = Some (PStr ''my-post'')"
  shows "(\<exists>r s' evs. git_push_callback w task_output s = (r, s') \<and>
            new_events s s' =
              [GetRepo repo_name,
               CreateFile ''outstatic/content/blogs/my-post.md'' ''Add my-post.md''
                 (report_content s)] @ evs \<and>
            (evs = [] \<or> index_events evs))
         \<and> (\<forall>e. create_file w ''outstatic/content/blogs/my-post.md'' ''Add my-post.md''
                   (report_content s) = Some e \<longrightarrow>
                git_push_callback w task_output s
                  = (Inl (RuntimeError (''Push failed: '' @ exn_str e)),
                     emit (CreateFile ''outstatic/content/blogs/my-post.md'' ''Add my-post.md''
                             (report_content s)) (emit (GetRepo repo_name) s)))"
proof -
  note c = closing_delimiter [OF assms(2,3)]
  from assms(4) c(3) have y: "yaml_safe_load w (strip (slice (report_content s) 3 (3 + length block)))
      = Inr (PDict d)" by simp
  from assms(5) have "d \<noteq> []" by auto
  with c(1,2) y have p: "parse_frontmatter w (report_content s) = Inr (PDict d)"
    by (simp add: parse_frontmatter_def and_then_def)
  from assms(5) have g: "dict_get (PDict d) ''slug'' (PStr ''default-slug'') = Inr (PStr ''my-post'')"
    by (simp add: dict_get_def)
  have path: "blog_path w (PStr ''my-post'') = ''outstatic/content/blogs/my-post.md''"
    and msg: "''Add '' @ py_str w (PStr ''my-post'') @ ''.md'' = ''Add my-post.md''"
    by (simp_all add: blog_path_def py_str_def)
  obtain r s' where run: "git_push_callback w task_output s = (r, s')"
    by (cases "git_push_callback w task_output s")
  from publisher_events [OF assms(1) p g run] have
    "\<exists>evs. new_events s s' =
        [GetRepo repo_name,
         CreateFile ''outstatic/content/blogs/my-post.md'' ''Add my-post.md'' (report_content s)] @ evs \<and>
        (evs = [] \<or> index_events evs)"
    by (simp only: path msg)
  with run have first: "\<exists>r s' evs. git_push_callback w task_output s = (r, s') \<and>
            new_events s s' =
              [GetRepo repo_name,
               CreateFile ''outstatic/content/blogs/my-post.md'' ''Add my-post.md''
                 (report_content s)] @ evs \<and>
            (evs = [] \<or> index_events evs)"
    by blast
  have second: "\<forall>e. create_file w ''outstatic/content/blogs/my-post.md'' ''Add my-post.md''
                   (report_content s) = Some e \<longrightarrow>
                git_push_callback w task_output s
                  = (Inl (RuntimeError (''Push failed: '' @ exn_str e)),
                     emit (CreateFile ''outstatic/content/blogs/my-post.md'' ''Add my-post.md''
                             (report_content s)) (emit (GetRepo repo_name) s))"
    unfolding publisher_create [OF assms(1) p g, of task_output] path msg
    by (simp add: create_file_failed)
  from first second show ?thesis by blast
qed

theorem publisher_commits_at_slug_path_witness:
  "git_push_callback (demo_world ''slug: my-post'') PNone (report_state (demo_post ''slug: my-post''))
     = (Inr ''Successfully pushed blog post'',
        \<lparr>report_file = Some (demo_post ''slug: my-post''),
          trace = [GetRepo ''abdullahhsajid/bmd-portfolio'',
                   CreateFile ''outstatic/content/blogs/my-post.md'' ''Add my-post.md''
                     (demo_post ''slug: my-post''),
                   GetContents ''outstatic/content/metadata.json'',
                   UpdateFile ''outstatic/content/metadata.json'' ''Update metadata'' ''index of 2''
                     ''abc123'']\<rparr>)
   \<and> git_push_callback taken_path_world PNone (report_state (demo_post ''slug: my-post''))
     = (Inl (RuntimeError ''Push failed: 422 the path is taken''),
        \<lparr>report_file = Some (demo_post ''slug: my-post''),
          trace = [GetRepo ''abdullahhsajid/bmd-portfolio'',
                   CreateFile ''outstatic/content/blogs/my-post.md'' ''Add my-post.md''
                     (demo_post ''slug: my-post'')]\<rparr>)"
proof -
  let ?w = "demo_world ''slug: my-post''" and ?s = "report_state (demo_post ''slug: my-post'')"
  have c: "report_content ?s = demo_post ''slug: my-post''"
    by (simp add: report_content_def report_state_def demo_post_def strip_def isspace_char_def)
  have ready2: "publisher_ready taken_path_world ?s"
    by (simp add: publisher_ready_def taken_path_world_def demo_world_def report_state_def)
  have yaml2: "yaml_safe_load taken_path_world
                 (strip ([CHR 0x0A] @ ''slug: my-post'' @ [CHR 0x0A]))
             = Inr (PDict [(PStr ''slug'', PStr ''my-post'')])"
    by (simp add: strip_def isspace_char_def taken_path_world_def demo_world_def demo_yaml_def)
  have run2: "git_push_callback taken_path_world PNone ?s
     = (Inl (RuntimeError ''Push failed: 422 the path is taken''),
        \<lparr>report_file = Some (demo_post ''slug: my-post''),
          trace = [GetRepo ''abdullahhsajid/bmd-portfolio'',
                   CreateFile ''outstatic/content/blogs/my-post.md'' ''Add my-post.md''
                     (demo_post ''slug: my-post'')]\<rparr>)"
    by (simp add: taken_path_world_def publisher_defs)
  let ?block = "[CHR 0x0A] @ ''slug: my-post'' @ [CHR 0x0A]" and ?rest = "[CHR 0x0A] @ ''Hello''"
  have 1: "report_content ?s = ''---'' @ ?block @ ''---'' @ ?rest"
    unfolding c by (simp add: demo_post_def)
  have "find_at ''---'' (?block @ ''--'') 0 = None"
    by simp
  then have 2: "\<forall>i. take 3 (drop i (?block @ ''--'')) \<noteq> ''---''"
    by (rule no_delimiter_iff [THEN iffD1])
  have 3: "yaml_safe_load ?w (strip ?block) = Inr (PDict [(PStr ''slug'', PStr ''my-post'')])"
    by (simp add: strip_def isspace_char_def demo_world_def demo_yaml_def)
  have 4: "map_of [(PStr ''slug'', PStr ''my-post'')] (PStr ''slug'') = Some (PStr ''my-post'')"
    by simp
  have run: "git_push_callback ?w PNone ?s = (Inr ''Successfully pushed blog post'',
        \<lparr>report_file = Some (demo_post ''slug: my-post''),
          trace = [GetRepo ''abdullahhsajid/bmd-portfolio'',
                   CreateFile ''outstatic/content/blogs/my-post.md'' ''Add my-post.md''
                     (demo_post ''slug: my-post''),
                   GetContents ''outstatic/content/metadata.json'',
                   UpdateFile ''outstatic/content/metadata.json'' ''Update metadata'' ''index of 2''
                     ''abc123'']\<rparr>)"
    by (simp add: publisher_defs)
  show ?thesis
    using publisher_commits_at_slug_path
      [OF demo_ready [of "''slug: my-post''" "demo_post ''slug: my-post''"] 1 2 3 4,
        where task_output = PNone]
      publisher_commits_at_slug_path [OF ready2 1 2 yaml2 4, where task_output = PNone] run run2
    by simp
qed

text \<open>
  Claim C4 as stated fails where the block itself holds three hyphens: the block of
  this report, read line by line, loads with the slug \<^verbatim>\<open>my-post\<close>, but the search
  stops at the hyphens inside the title, and the content is committed to
  \<^verbatim>\<open>default-slug.md\<close>.
\<close>

theorem dashed_block_goes_to_default_slug:
  "spec_frontmatter dashed_post = Some dashed_block
   \<and> demo_yaml dashed_block
       = Inr (PDict [(PStr ''title'', PStr ''A --- B''), (PStr ''slug'', PStr ''my-post'')])
   \<and> git_push_callback (demo_world ''slug: my-post'') PNone (report_state dashed_post)
     = (Inr ''Successfully pushed blog post'',
        \<lparr>report_file = Some dashed_post,
          trace = [GetRepo ''abdullahhsajid/bmd-portfolio'',
                   CreateFile ''outstatic/content/blogs/default-slug.md'' ''Add default-slug.md''
                     dashed_post,
                   GetContents ''outstatic/content/metadata.json'',
                   UpdateFile ''outstatic/content/metadata.json'' ''Update metadata'' ''index of 2''
                     ''abc123'']\<rparr>)"
  by (simp add: spec_frontmatter_def dashed_post_def dashed_block_def publisher_defs)

text \<open>
  Claim C5. When the content of the report does not start with \<^verbatim>\<open>---\<close>, the
  Publisher goes on with the empty mapping: the slug is \<^verbatim>\<open>default-slug\<close>, the
  derived entry has category \<^verbatim>\<open>Uncategorized\<close>, status \<^verbatim>\<open>draft\<close> and title
  \<^verbatim>\<open>Untitled\<close>, and the run is the commit of \<^verbatim>\<open>default-slug.md\<close> followed by the
  append of that entry to the fetched index.
\<close>

theorem no_frontmatter_gives_defaults:
  assumes "publisher_ready w s"
    and "\<not> startswith (report_content s) ''---''"
  shows "parse_frontmatter w (report_content s) = Inr (PDict [])
     \<and> dict_get (PDict []) ''slug'' (PStr ''default-slug'') = Inr (PStr ''default-slug'')
     \<and> new_entry w (PDict []) (PStr ''default-slug'') =
         Inr (PDict
           [(PStr ''category'', PStr ''Uncategorized''),
            (PStr ''collection'', PStr ''blogs''),
            (PStr ''coverImage'', PStr []),
            (PStr ''description'', PStr []),
            (PStr ''publishedAt'', PStr []),
            (PStr ''slug'', PStr ''default-slug''),
            (PStr ''status'', PStr ''draft''),
            (PStr ''title'', PStr ''Untitled''),
            (PStr ''path'', PStr ''outstatic/content/blogs/default-slug.md''),
            (PStr ''author'', PDict [(PStr ''name'', PStr []), (PStr ''picture'', PStr [])]),
            (PStr ''__outstatic'',
               PDict [(PStr ''path'', PStr ''outstatic/content/blogs/default-slug.md'')])])
     \<and> git_push_callback w task_output s =
         bind (wrapped ''Push failed: ''
                 (repo_create_file w ''outstatic/content/blogs/default-slug.md''
                    ''Add default-slug.md'' (report_content s))) (\<lambda>_.
         bind (fetch_index w) (\<lambda>(metadata_file, metadata_json).
         bind (lift (new_entry w (PDict []) (PStr ''default-slug''))) (\<lambda>entry.
         bind (lift (append_entry metadata_json entry)) (\<lambda>metadata_json'.
           push_index w metadata_file metadata_json'))))
         (emit (GetRepo repo_name) s)"
proof -
  from assms(2) have p: "parse_frontmatter w (report_content s) = Inr (PDict [])"
    by (simp add: parse_frontmatter_def)
  have g: "dict_get (PDict []) ''slug'' (PStr ''default-slug'') = Inr (PStr ''default-slug'')"
    by (simp add: dict_get_def)
  have n: "new_entry w (PDict []) (PStr ''default-slug'') =
         Inr (PDict
           [(PStr ''category'', PStr ''Uncategorized''),
            (PStr ''collection'', PStr ''blogs''),
            (PStr ''coverImage'', PStr []),
            (PStr ''description'', PStr []),
            (PStr ''publishedAt'', PStr []),
            (PStr ''slug'', PStr ''default-slug''),
            (PStr ''status'', PStr ''draft''),
            (PStr ''title'', PStr ''Untitled''),
            (PStr ''path'', PStr ''outstatic/content/blogs/default-slug.md''),
            (PStr ''author'', PDict [(PStr ''name'', PStr []), (PStr ''picture'', PStr [])]),
            (PStr ''__outstatic'',
               PDict [(PStr ''path'', PStr ''outstatic/content/blogs/default-slug.md'')])])"
    by (simp add: new_entry_def dict_get_def and_then_def blog_path_def py_str_def)
  have r: "git_push_callback w task_output s =
         bind (wrapped ''Push failed: ''
                 (repo_create_file w ''outstatic/content/blogs/default-slug.md''
                    ''Add default-slug.md'' (report_content s))) (\<lambda>_.
         bind (fetch_index w) (\<lambda>(metadata_file, metadata_json).
         bind (lift (new_entry w (PDict []) (PStr ''default-slug''))) (\<lambda>entry.
         bind (lift (append_entry metadata_json entry)) (\<lambda>metadata_json'.
           push_index w metadata_file metadata_json'))))
         (emit (GetRepo repo_name) s)"
    unfolding publisher_create [OF assms(1) p g, of task_output]
    by (simp add: blog_path_def py_str_def)
  from p g n r show ?thesis by blast
qed

theorem no_frontmatter_gives_defaults_witness:
  "parse_frontmatter (demo_world ''slug: my-post'') plain_post = Inr (PDict [])
   \<and> take 2 (trace (snd (git_push_callback (demo_world ''slug: my-post'') PNone (report_state plain_post))))
       = [GetRepo ''abdullahhsajid/bmd-portfolio'',
          CreateFile ''outstatic/content/blogs/default-slug.md'' ''Add default-slug.md'' plain_post]"
proof -
  let ?w = "demo_world ''slug: my-post''" and ?s = "report_state plain_post"
  have c: "report_content ?s = plain_post"
    by (simp add: report_content_def report_state_def plain_post_def strip_def isspace_char_def)
  have 1: "\<not> startswith (report_content ?s) ''---''"
    unfolding c by (simp add: plain_post_def startswith_def)
  show ?thesis
    using no_frontmatter_gives_defaults
      [OF demo_ready [of "''slug: my-post''" plain_post] 1, where task_output = PNone]
    unfolding c
    by (simp add: publisher_defs)
qed

text \<open>
  Claim C10. When the fetch of the index file succeeds and its decoding or its parsing
  as JSON fails, the Publisher appends the new entry to the empty index it started
  from and, the handle being bound, calls \<^verbatim>\<open>update_file\<close>: the remote index is
  replaced by the serialised one-entry index, whatever it held.
\<close>

theorem undecodable_index_is_overwritten:
  assumes "publisher_ready w s"
    and "parse_frontmatter w (report_content s) = Inr metadata"
    and "dict_get metadata ''slug'' (PStr ''default-slug'') = Inr slug"
    and "create_file w (blog_path w slug) (''Add '' @ py_str w slug @ ''.md'') (report_content s) = None"
    and "get_contents w index_path = Inr f"
    and "(\<exists>e. decoded f = Inl e) \<or> (\<exists>rtext e. decoded f = Inr rtext \<and> json_loads w rtext = Inl e)"
    and "new_entry w metadata slug = Inr entry"
    and "json_dumps w (PDict [(PStr ''metadata'', PList [entry])]) = Inr out"
  shows "git_push_callback w task_output s =
          (case update_file w index_path ''Update metadata'' out (sha f) of
             Some e \<Rightarrow> Inl (RuntimeError (''Metadata update failed: '' @ exn_str e))
           | None \<Rightarrow> Inr success_message,
           emit (UpdateFile index_path ''Update metadata'' out (sha f))
             (emit (GetContents index_path)
               (emit (CreateFile (blog_path w slug) (''Add '' @ py_str w slug @ ''.md'') (report_content s))
                 (emit (GetRepo repo_name) s))))"
proof -
  from assms(6) have "\<exists>e. and_then (decoded f) (json_loads w) = Inl e"
    by (auto simp: and_then_def)
  with assms(5) have fetch: "fst (fetch_index w s) = Inr (Some f, empty_index)"
    by (auto simp: fetch_index_def repo_get_contents_def)
  have app: "append_entry empty_index entry = Inr (PDict [(PStr ''metadata'', PList [entry])])"
    by (simp add: append_entry_def empty_index_def)
  show ?thesis
    unfolding publisher_push [OF assms(1-4) fetch assms(7) app, of task_output]
    by (rule push_index_update [OF assms(8)])
qed

theorem undecodable_index_is_overwritten_witness:
  "git_push_callback broken_index_world PNone (report_state (demo_post ''slug: my-post''))
     = (Inr ''Successfully pushed blog post'',
        \<lparr>report_file = Some (demo_post ''slug: my-post''),
          trace = [GetRepo ''abdullahhsajid/bmd-portfolio'',
                   CreateFile ''outstatic/content/blogs/my-post.md'' ''Add my-post.md''
                     (demo_post ''slug: my-post''),
                   GetContents ''outstatic/content/metadata.json'',
                   UpdateFile ''outstatic/content/metadata.json'' ''Update metadata'' ''index of 1''
                     ''abc123'']\<rparr>)"
proof -
  let ?w = broken_index_world and ?s = "report_state (demo_post ''slug: my-post'')"
  let ?f = "\<lparr>decoded = Inr ''old index'', sha = ''abc123''\<rparr>"
  let ?md = "PDict [(PStr ''slug'', PStr ''my-post'')]"
  have r: "publisher_ready ?w ?s"
    by (simp add: publisher_ready_def broken_index_world_def demo_world_def report_state_def)
  have c: "report_content ?s = demo_post ''slug: my-post''"
    by (simp add: report_content_def report_state_def demo_post_def strip_def isspace_char_def)
  have 1: "parse_frontmatter ?w (report_content ?s) = Inr ?md"
    unfolding c by (simp add: broken_index_world_def publisher_defs)
  have 2: "dict_get ?md ''slug'' (PStr ''default-slug'') = Inr (PStr ''my-post'')"
    by (simp add: dict_get_def)
  have 3: "create_file ?w (blog_path ?w (PStr ''my-post''))
             (''Add '' @ py_str ?w (PStr ''my-post'') @ ''.md'') (report_content ?s) = None"
    by (simp add: broken_index_world_def demo_world_def)
  have 4: "get_contents ?w index_path = Inr ?f"
    by (simp add: broken_index_world_def demo_world_def)
  have 5: "(\<exists>e. decoded ?f = Inl e) \<or>
           (\<exists>rtext e. decoded ?f = Inr rtext \<and> json_loads ?w rtext = Inl e)"
    by (simp add: broken_index_world_def demo_world_def)
  obtain entry where 6: "new_entry ?w ?md (PStr ''my-post'') = Inr entry"
    by (simp add: new_entry_def dict_get_def and_then_def)
  have 7: "json_dumps ?w (PDict [(PStr ''metadata'', PList [entry])]) = Inr ''index of 1''"
    by (simp add: broken_index_world_def demo_world_def demo_dumps_def string_of_nat.simps
        digit_char_def)
  show ?thesis
    using undecodable_index_is_overwritten [OF r 1 2 3 4 5 6 7, where task_output = PNone]
    by (simp add: broken_index_world_def publisher_defs)
qed

text \<open>
  Claim C6, as the code has it. For every fetched index
  \<^verbatim>\<open>{"metadata": xs}\<close> and every frontmatter mapping whose \<^verbatim>\<open>author\<close> is absent
  or itself a mapping, the entry that the Publisher builds is the entry of the
  specification, the append gives \<^verbatim>\<open>{"metadata": xs + [Y]}\<close> with the stored
  entries unchanged and in place, and that index is what the Publisher goes on to push.
\<close>

theorem index_append_keeps_entries:
  assumes "publisher_ready w s"
    and "parse_frontmatter w (report_content s) = Inr (PDict d)"
    and "author_is_mapping d"
    and "create_file w (blog_path w (field d ''slug'' (PStr ''default-slug'')))
           (''Add '' @ py_str w (field d ''slug'' (PStr ''default-slug'')) @ ''.md'')
           (report_content s) = None"
    and "get_contents w index_path = Inr f"
    and "decoded f = Inr rtext"
    and "json_loads w rtext = Inr (PDict [(PStr ''metadata'', PList xs)])"
  shows "new_entry w (PDict d) (field d ''slug'' (PStr ''default-slug'')) = Inr (spec_entry w d)
     \<and> append_entry (PDict [(PStr ''metadata'', PList xs)]) (spec_entry w d)
         = Inr (PDict [(PStr ''metadata'', PList (xs @ [spec_entry w d]))])
     \<and> git_push_callback w task_output s =
         push_index w (Some f) (PDict [(PStr ''metadata'', PList (xs @ [spec_entry w d]))])
           (emit (GetContents index_path)
             (emit (CreateFile (blog_path w (field d ''slug'' (PStr ''default-slug'')))
                      (''Add '' @ py_str w (field d ''slug'' (PStr ''default-slug'')) @ ''.md'')
                      (report_content s))
               (emit (GetRepo repo_name) s)))"
proof -
  have n: "new_entry w (PDict d) (field d ''slug'' (PStr ''default-slug'')) = Inr (spec_entry w d)"
    by (rule new_entry_spec [OF assms(3)])
  have a: "append_entry (PDict [(PStr ''metadata'', PList xs)]) (spec_entry w d)
         = Inr (PDict [(PStr ''metadata'', PList (xs @ [spec_entry w d]))])"
    by (simp add: append_entry_def)
  have fetch: "fst (fetch_index w s) = Inr (Some f, PDict [(PStr ''metadata'', PList xs)])"
    using assms(5-7) by (simp add: fetch_index_def repo_get_contents_def and_then_def)
  note run = publisher_push [OF assms(1,2) dict_get_field assms(4) fetch n a, of task_output]
  from n a run show ?thesis by blast
qed

theorem index_append_keeps_entries_witness:
  "append_entry (PDict [(PStr ''metadata'', PList [old_entry])])
       (spec_entry (demo_world ''slug: my-post'') [(PStr ''slug'', PStr ''my-post'')])
     = Inr (PDict [(PStr ''metadata'',
                    PList [old_entry,
                           spec_entry (demo_world ''slug: my-post'') [(PStr ''slug'', PStr ''my-post'')]])])
   \<and> snd (git_push_callback (demo_world ''slug: my-post'') PNone
              (report_state (demo_post ''slug: my-post'')))
     = \<lparr>report_file = Some (demo_post ''slug: my-post''),
         trace = [GetRepo ''abdullahhsajid/bmd-portfolio'',
                  CreateFile ''outstatic/content/blogs/my-post.md'' ''Add my-post.md''
                    (demo_post ''slug: my-post''),
                  GetContents ''outstatic/content/metadata.json'',
                  UpdateFile ''outstatic/content/metadata.json'' ''Update metadata'' ''index of 2''
                    ''abc123'']\<rparr>"
proof -
  let ?w = "demo_world ''slug: my-post''" and ?s = "report_state (demo_post ''slug: my-post'')"
  let ?d = "[(PStr ''slug'', PStr ''my-post'')]"
  let ?f = "\<lparr>decoded = Inr ''old index'', sha = ''abc123''\<rparr>"
  have c: "report_content ?s = demo_post ''slug: my-post''"
    by (simp add: report_content_def report_state_def demo_post_def strip_def isspace_char_def)
  have 1: "parse_frontmatter ?w (report_content ?s) = Inr (PDict ?d)"
    unfolding c by (simp add: publisher_defs)
  have 2: "author_is_mapping ?d"
    by (simp add: author_is_mapping_def)
  have 3: "create_file ?w (blog_path ?w (field ?d ''slug'' (PStr ''default-slug'')))
             (''Add '' @ py_str ?w (field ?d ''slug'' (PStr ''default-slug'')) @ ''.md'')
             (report_content ?s) = None"
    by (simp add: demo_world_def)
  have 4: "get_contents ?w index_path = Inr ?f"
    by (simp add: demo_world_def)
  have 5: "decoded ?f = Inr ''old index''"
    by simp
  have 6: "json_loads ?w ''old index'' = Inr (PDict [(PStr ''metadata'', PList [old_entry])])"
    by (simp add: demo_world_def)
  show ?thesis
    using index_append_keeps_entries
      [OF demo_ready [of "''slug: my-post''" "demo_post ''slug: my-post''"] 1 2 3 4 5 6,
        where task_output = PNone]
    by (simp add: publisher_defs field_def spec_entry_def)
qed

text \<open>
  Claim C6 as stated fails where the frontmatter gives \<^verbatim>\<open>author\<close> a plain string:
  the index \<^verbatim>\<open>{"metadata": [X]}\<close> is fetched, and the construction of the entry
  raises an \<^verbatim>\<open>AttributeError\<close> before anything is appended or pushed.
\<close>

theorem index_append_fails_for_scalar_author:
  "parse_frontmatter (demo_world ''author: Bob'') (demo_post ''author: Bob'')
     = Inr (PDict [(PStr ''author'', PStr ''Bob'')])
   \<and> fst (fetch_index (demo_world ''author: Bob'') (report_state (demo_post ''author: Bob'')))
     = Inr (Some \<lparr>decoded = Inr ''old index'', sha = ''abc123''\<rparr>,
            PDict [(PStr ''metadata'', PList [old_entry])])
   \<and> git_push_callback (demo_world ''author: Bob'') PNone (report_state (demo_post ''author: Bob''))
     = (Inl (AttributeError (quoted ''str'' @ '' object has no attribute '' @ quoted ''get'')),
        \<lparr>report_file = Some (demo_post ''author: Bob''),
          trace = [GetRepo ''abdullahhsajid/bmd-portfolio'',
                   CreateFile ''outstatic/content/blogs/default-slug.md'' ''Add default-slug.md''
                     (demo_post ''author: Bob''),
                   GetContents ''outstatic/content/metadata.json'']\<rparr>)"
  by (simp add: publisher_defs no_attribute_def quoted_def)

text \<open>
  Claim C7, as the code has it. The slug that names the committed file and that the
  entry carries is the value under \<^verbatim>\<open>slug\<close> of the frontmatter mapping, taken as it
  is: a string is used unchanged, so it is URL-safe exactly when the frontmatter's is.
  When the mapping has no \<^verbatim>\<open>slug\<close> key, the placeholder \<^verbatim>\<open>default-slug\<close> is
  used, which is URL-safe.
\<close>

theorem slug_is_taken_from_frontmatter:
  assumes "publisher_ready w s"
    and "parse_frontmatter w (report_content s) = Inr (PDict d)"
  shows "(\<exists>r s' evs. git_push_callback w task_output s = (r, s') \<and>
            new_events s s' =
              [GetRepo repo_name,
               CreateFile (''outstatic/content/blogs/''
                             @ py_str w (field d ''slug'' (PStr ''default-slug'')) @ ''.md'')
                 (''Add '' @ py_str w (field d ''slug'' (PStr ''default-slug'')) @ ''.md'')
                 (report_content s)] @ evs \<and>
            (evs = [] \<or> index_events evs))
     \<and> (\<forall>entry. new_entry w (PDict d) (field d ''slug'' (PStr ''default-slug'')) = Inr entry \<longrightarrow>
           dict_get entry ''slug'' PNone = Inr (field d ''slug'' (PStr ''default-slug'')) \<and>
           dict_get entry ''path'' PNone
             = Inr (PStr (''outstatic/content/blogs/''
                            @ py_str w (field d ''slug'' (PStr ''default-slug'')) @ ''.md'')))
     \<and> (map_of d (PStr ''slug'') = None \<longrightarrow>
           py_str w (field d ''slug'' (PStr ''default-slug'')) = ''default-slug'' \<and>
           url_safe ''default-slug'')
     \<and> (\<forall>t. map_of d (PStr ''slug'') = Some (PStr t) \<longrightarrow>
           py_str w (field d ''slug'' (PStr ''default-slug'')) = t)"
proof -
  let ?slug = "field d ''slug'' (PStr ''default-slug'')"
  obtain r s' where run: "git_push_callback w task_output s = (r, s')"
    by (cases "git_push_callback w task_output s")
  from publisher_events [OF assms dict_get_field run]
  have 1: "\<exists>r s' evs. git_push_callback w task_output s = (r, s') \<and>
            new_events s s' =
              [GetRepo repo_name,
               CreateFile (''outstatic/content/blogs/'' @ py_str w ?slug @ ''.md'')
                 (''Add '' @ py_str w ?slug @ ''.md'') (report_content s)] @ evs \<and>
            (evs = [] \<or> index_events evs)"
    using run by (auto simp: blog_path_def)
  have 2: "\<forall>entry. new_entry w (PDict d) ?slug = Inr entry \<longrightarrow>
           dict_get entry ''slug'' PNone = Inr ?slug \<and>
           dict_get entry ''path'' PNone
             = Inr (PStr (''outstatic/content/blogs/'' @ py_str w ?slug @ ''.md''))"
    by (auto simp: new_entry_def and_then_def dict_get_def blog_path_def
        split: sum.splits pyval.splits)
  have 3: "map_of d (PStr ''slug'') = None \<longrightarrow>
           py_str w ?slug = ''default-slug'' \<and> url_safe ''default-slug''"
    by (simp add: field_def py_str_def url_safe_def url_safe_char_def)
  have 4: "\<forall>t. map_of d (PStr ''slug'') = Some (PStr t) \<longrightarrow> py_str w ?slug = t"
    by (simp add: field_def py_str_def)
  from 1 2 3 4 show ?thesis by blast
qed

theorem slug_is_taken_from_frontmatter_witness:
  "take 2 (trace (snd (git_push_callback (demo_world ''title: Hi'') PNone
                         (report_state (demo_post ''title: Hi'')))))
     = [GetRepo ''abdullahhsajid/bmd-portfolio'',
        CreateFile ''outstatic/content/blogs/default-slug.md'' ''Add default-slug.md''
          (demo_post ''title: Hi'')]
   \<and> url_safe ''default-slug''"
proof -
  let ?w = "demo_world ''title: Hi''" and ?s = "report_state (demo_post ''title: Hi'')"
  have c: "report_content ?s = demo_post ''title: Hi''"
    by (simp add: report_content_def report_state_def demo_post_def strip_def isspace_char_def)
  have 1: "parse_frontmatter ?w (report_content ?s) = Inr (PDict [(PStr ''title'', PStr ''Hi'')])"
    unfolding c by (simp add: publisher_defs)
  show ?thesis
    using slug_is_taken_from_frontmatter
      [OF demo_ready [of "''title: Hi''" "demo_post ''title: Hi''"] 1, where task_output = PNone]
    by (simp add: publisher_defs url_safe_def url_safe_char_def)
qed

text \<open>
  Claim C7 as stated fails where the frontmatter's slug holds a space: the Publisher
  commits to a path with that space in it.
\<close>

theorem slug_with_a_space_is_used:
  "git_push_callback (demo_world ''slug: my post'') PNone (report_state (demo_post ''slug: my post''))
     = (Inr ''Successfully pushed blog post'',
        \<lparr>report_file = Some (demo_post ''slug: my post''),
          trace = [GetRepo ''abdullahhsajid/bmd-portfolio'',
                   CreateFile ''outstatic/content/blogs/my post.md'' ''Add my post.md''
                     (demo_post ''slug: my post''),
                   GetContents ''outstatic/content/metadata.json'',
                   UpdateFile ''outstatic/content/metadata.json'' ''Update metadata'' ''index of 2''
                     ''abc123'']\<rparr>)
   \<and> \<not> url_safe ''my post''"
  by (simp add: publisher_defs url_safe_def url_safe_char_def)

text \<open>
  Claim C1, as the code has it. For every invocation of \<^verbatim>\<open>GET /run-agent\<close> in which
  the pipeline runs to its end without raising, the response has status 200 and its
  body is the fixed object \<^verbatim>\<open>{"message": "Agent is running in the background"}\<close>.
  The success object, with the success message under \<^verbatim>\<open>result\<close> and the elapsed
  time under \<^verbatim>\<open>execution_time\<close>, is what \<^verbatim>\<open>run_agent\<close> returns to the handler,
  which drops it.
\<close>

theorem run_agent_route_response:
  assumes "fst (run_agent w s) = Inr v"
  shows "v = PDict [(PStr ''result'', PStr ''Successfully pushed blog post''),
                    (PStr ''execution_time'',
                       PFloat (time_time w (snd (run_agent w s)) - time_time w s))]
     \<and> http_response (fst (trigger_event w s))
         = (200, PDict [(PStr ''message'', PStr ''Agent is running in the background'')])"
proof -
  obtain r s' where t: "run_agent_try w s = (r, s')"
    by (cases "run_agent_try w s")
  with assms have "r = Inr v" and s': "snd (run_agent w s) = s'"
    by (auto simp: run_agent_def split: sum.splits)
  with t have "run_agent_try w s = (Inr v, s')" by simp
  from run_agent_try_result [OF this] s' have
    "v = PDict [(PStr ''result'', PStr ''Successfully pushed blog post''),
                (PStr ''execution_time'',
                   PFloat (time_time w (snd (run_agent w s)) - time_time w s))]"
    by (simp add: success_message_def)
  moreover from assms have "http_response (fst (trigger_event w s))
         = (200, PDict [(PStr ''message'', PStr ''Agent is running in the background'')])"
    by (cases "run_agent w s") (simp add: trigger_event_def http_response_def)
  ultimately show ?thesis by blast
qed

theorem run_agent_route_response_witness:
  "http_response (fst (trigger_event (demo_world ''slug: my-post'') state0))
     = (200, PDict [(PStr ''message'', PStr ''Agent is running in the background'')])
   \<and> time_time (demo_world ''slug: my-post'') (snd (run_agent (demo_world ''slug: my-post'') state0))
       - time_time (demo_world ''slug: my-post'') state0 = 11"
  using run_agent_route_response [OF conjunct1 [OF demo_run]] demo_run
  by (simp add: time_time_def demo_world_def state0_def)

text \<open>
  Claim C1 as stated fails in the world in which every external call succeeds: the
  pipeline returns its success object, and the body of the response is another object.
\<close>

theorem run_agent_route_drops_the_result:
  "fst (run_agent (demo_world ''slug: my-post'') state0)
     = Inr (PDict [(PStr ''result'', PStr ''Successfully pushed blog post''),
                   (PStr ''execution_time'', PFloat 11)])
   \<and> http_response (fst (trigger_event (demo_world ''slug: my-post'') state0))
     = (200, PDict [(PStr ''message'', PStr ''Agent is running in the background'')])
   \<and> snd (http_response (fst (trigger_event (demo_world ''slug: my-post'') state0)))
     \<noteq> PDict [(PStr ''result'', PStr ''Successfully pushed blog post''),
              (PStr ''execution_time'', PFloat 11)]"
  using demo_run by simp

end
